theory Spec2Isabelle
  imports Complex_Main
begin

section \<open>JavaScript strings\<close>

text \<open>
  A JavaScript string is a sequence of UTF-16 code units. The parser of
  \<^verbatim>\<open>gaeb-parser.ts\<close> looks at characters outside ASCII (the superscripts of
  the area and volume units, the euro sign, German umlauts), so a code unit is a
  natural number and a string is a list of them. \<open>asc\<close> embeds an ASCII literal.
\<close>

type_synonym jsstring = "nat list"

definition asc :: "string \<Rightarrow> jsstring" where
  "asc cs = map of_char cs"

text \<open>The code units the source names outside ASCII.\<close>

definition SUP2 :: nat where "SUP2 = 178"
definition SUP3 :: nat where "SUP3 = 179"
definition EURO :: nat where "EURO = 8364"
definition AUML :: nat where "AUML = 196"
definition OUML :: nat where "OUML = 214"
definition UUML :: nat where "UUML = 220"
definition auml :: nat where "auml = 228"

text \<open>
  White space as \<^verbatim>\<open>String.prototype.trim\<close>, \<^verbatim>\<open>parseFloat\<close>, \<^verbatim>\<open>parseInt\<close> and the
  regular-expression class \<^verbatim>\<open>\s\<close> see it: ECMAScript's WhiteSpace and
  LineTerminator code points.
\<close>

definition is_space :: "nat \<Rightarrow> bool" where
  "is_space c \<longleftrightarrow>
     (9 \<le> c \<and> c \<le> 13) \<or> c = 32 \<or> c = 160 \<or> c = 5760 \<or> (8192 \<le> c \<and> c \<le> 8202) \<or>
     c = 8232 \<or> c = 8233 \<or> c = 8239 \<or> c = 8287 \<or> c = 12288 \<or> c = 65279"

definition is_digit :: "nat \<Rightarrow> bool" where
  "is_digit c \<longleftrightarrow> 48 \<le> c \<and> c \<le> 57"

definition is_upper :: "nat \<Rightarrow> bool" where
  "is_upper c \<longleftrightarrow> 65 \<le> c \<and> c \<le> 90"

definition is_lower :: "nat \<Rightarrow> bool" where
  "is_lower c \<longleftrightarrow> 97 \<le> c \<and> c \<le> 122"

text \<open>The class \<^verbatim>\<open>\w\<close> that decides \<^verbatim>\<open>\b\<close> (no \<^verbatim>\<open>u\<close> flag in the source).\<close>

definition is_word :: "nat \<Rightarrow> bool" where
  "is_word c \<longleftrightarrow> is_digit c \<or> is_upper c \<or> is_lower c \<or> c = 95"

definition trimStart :: "jsstring \<Rightarrow> jsstring" where
  "trimStart s = dropWhile is_space s"

definition trimEnd :: "jsstring \<Rightarrow> jsstring" where
  "trimEnd s = rev (dropWhile is_space (rev s))"

definition trim :: "jsstring \<Rightarrow> jsstring" where
  "trim s = trimEnd (trimStart s)"

fun startsWith :: "jsstring \<Rightarrow> jsstring \<Rightarrow> bool" where
  "startsWith s [] = True"
| "startsWith [] (p # ps) = False"
| "startsWith (c # cs) (p # ps) = (c = p \<and> startsWith cs ps)"

fun js_includes :: "jsstring \<Rightarrow> jsstring \<Rightarrow> bool" where
  "js_includes [] p = (p = [])"
| "js_includes (c # cs) p = (startsWith (c # cs) p \<or> js_includes cs p)"

text \<open>\<^verbatim>\<open>s.split(sep)\<close> for a one-unit separator: always at least one piece.\<close>

fun split :: "nat \<Rightarrow> jsstring \<Rightarrow> jsstring list" where
  "split sep [] = [[]]"
| "split sep (c # cs) =
     (if c = sep then [] # split sep cs
      else (case split sep cs of
              [] \<Rightarrow> [[c]]
            | p # ps \<Rightarrow> (c # p) # ps))"

fun join :: "jsstring \<Rightarrow> jsstring list \<Rightarrow> jsstring" where
  "join sep [] = []"
| "join sep [p] = p"
| "join sep (p # q # ps) = p @ sep @ join sep (q # ps)"

text \<open>
  \<^verbatim>\<open>toLowerCase\<close>. The source only searches the lowered line for ASCII keywords,
  so the mapping is written out for every code unit whose lower case contains
  an ASCII letter (the capitals, the Kelvin sign, the dotted capital I) and for
  the Latin-1 capitals; every other unit is kept.
\<close>

definition lower_unit :: "nat \<Rightarrow> jsstring" where
  "lower_unit c =
     (if is_upper c then [c + 32]
      else if 192 \<le> c \<and> c \<le> 222 \<and> c \<noteq> 215 then [c + 32]
      else if c = 8490 then [107]
      else if c = 304 then [105, 775]
      else [c])"

definition toLowerCase :: "jsstring \<Rightarrow> jsstring" where
  "toLowerCase s = concat (map lower_unit s)"

text \<open>
  The canonical form of a code unit under the \<^verbatim>\<open>i\<close> flag (no \<^verbatim>\<open>u\<close> flag): its
  upper case, unless that leaves the Basic Latin block from outside or is longer
  than one unit. The patterns of the source hold ASCII letters, digits, the two
  superscripts, the euro sign and the a-umlaut only; on these, and on whether
  an input unit equals one of them, this function agrees with ECMAScript's
  Canonicalize.
\<close>

definition canon :: "nat \<Rightarrow> nat" where
  "canon c =
     (if is_lower c then c - 32
      else if 224 \<le> c \<and> c \<le> 254 \<and> c \<noteq> 247 then c - 32
      else c)"

section \<open>Regular expressions\<close>

text \<open>
  The fragment of ECMAScript regular expressions that the source uses, with the
  backtracking semantics of the language: a matcher returns the states in which
  a pattern can end, in the order in which backtracking tries them, so the head
  of the list is the match that \<^verbatim>\<open>exec\<close> reports. A state is the position in
  the input and the span of capture group 1 when it has taken part.
\<close>

datatype citem = CChar nat | CRange nat nat | CDigit | CSpace

datatype regex =
    Lit jsstring
  | Cls "citem list"
  | Bol
  | Eol
  | WordB
  | Seq regex regex
  | Alt regex regex
  | Star regex
  | Group regex

type_synonym mstate = "nat \<times> (nat \<times> nat) option"

fun in_citem :: "bool \<Rightarrow> nat \<Rightarrow> citem \<Rightarrow> bool" where
  "in_citem ci c (CChar d) = (if ci then canon c = canon d else c = d)"
| "in_citem ci c (CRange lo hi) =
     (if ci then (\<exists>d \<in> set [lo..<Suc hi]. canon d = canon c) else lo \<le> c \<and> c \<le> hi)"
| "in_citem ci c CDigit = is_digit c"
| "in_citem ci c CSpace = is_space c"

fun lit_at :: "bool \<Rightarrow> jsstring \<Rightarrow> jsstring \<Rightarrow> bool" where
  "lit_at ci s [] = True"
| "lit_at ci [] (p # ps) = False"
| "lit_at ci (c # cs) (p # ps) =
     ((if ci then canon c = canon p else c = p) \<and> lit_at ci cs ps)"

definition word_at :: "jsstring \<Rightarrow> nat \<Rightarrow> bool" where
  "word_at s i \<longleftrightarrow> i < length s \<and> is_word (s ! i)"

function rmatch :: "bool \<Rightarrow> jsstring \<Rightarrow> regex \<Rightarrow> mstate \<Rightarrow> mstate list" where
  "rmatch ci s (Lit p) (i, g) =
     (if lit_at ci (drop i s) p then [(i + length p, g)] else [])"
| "rmatch ci s (Cls items) (i, g) =
     (if i < length s \<and> (\<exists>it \<in> set items. in_citem ci (s ! i) it) then [(Suc i, g)] else [])"
| "rmatch ci s Bol (i, g) = (if i = 0 then [(i, g)] else [])"
| "rmatch ci s Eol (i, g) = (if i = length s then [(i, g)] else [])"
| "rmatch ci s WordB (i, g) =
     (if (0 < i \<and> word_at s (i - 1)) \<noteq> word_at s i then [(i, g)] else [])"
| "rmatch ci s (Seq r1 r2) (i, g) =
     concat (map (rmatch ci s r2) (rmatch ci s r1 (i, g)))"
| "rmatch ci s (Alt r1 r2) (i, g) = rmatch ci s r1 (i, g) @ rmatch ci s r2 (i, g)"
| "rmatch ci s (Star r) (i, g) =
     concat (map (\<lambda>(j, g'). if i < j \<and> j \<le> length s then rmatch ci s (Star r) (j, g') else [])
               (rmatch ci s r (i, g)))
     @ [(i, g)]"
| "rmatch ci s (Group r) (i, g) =
     map (\<lambda>(j, g'). (j, Some (i, j))) (rmatch ci s r (i, g))"
  by pat_completeness auto
termination
  by (relation "measures [\<lambda>(ci, s, r, st). size r, \<lambda>(ci, s, r, (i, g)). length s - i]") auto

declare rmatch.simps [simp del]

lemma rmatch_advances: "(j, g') \<in> set (rmatch ci s r st) \<Longrightarrow> fst st \<le> j"
proof (induction ci s r st arbitrary: j g' rule: rmatch.induct)
  case (6 ci s r1 r2 i g)
  from "6.prems" obtain k h where mid: "(k, h) \<in> set (rmatch ci s r1 (i, g))"
    and fin: "(j, g') \<in> set (rmatch ci s r2 (k, h))"
    by (auto simp: rmatch.simps(6))
  from "6.IH"(1) [OF mid] "6.IH"(2) [OF mid fin] show ?case by simp
next
  case (8 ci s r i g)
  have "set (rmatch ci s (Star r) (i, g)) =
     (\<Union>x \<in> set (rmatch ci s r (i, g)).
        set (case x of (k, h) \<Rightarrow> if i < k \<and> k \<le> length s then rmatch ci s (Star r) (k, h) else []))
     \<union> {(i, g)}"
    by (subst rmatch.simps(8)) simp
  with "8.prems" consider "(j, g') = (i, g)"
    | k h where "(k, h) \<in> set (rmatch ci s r (i, g))" "i < k" "k \<le> length s"
        "(j, g') \<in> set (rmatch ci s (Star r) (k, h))"
    by (fastforce split: if_splits)
  then show ?case
  proof cases
    case 1
    then show ?thesis by simp
  next
    case 2
    from "8.IH"(2) [OF 2(1) refl _ 2(4)] 2(2,3) show ?thesis by simp
  qed
qed (auto simp: rmatch.simps split: if_splits)

text \<open>Derived forms: \<^verbatim>\<open>r+\<close>, \<^verbatim>\<open>r?\<close>, \<^verbatim>\<open>r{2,3}\<close>, sequences and alternatives.\<close>

definition Plus :: "regex \<Rightarrow> regex" where
  "Plus r = Seq r (Star r)"

definition Opt :: "regex \<Rightarrow> regex" where
  "Opt r = Alt r (Lit [])"

definition Rep23 :: "regex \<Rightarrow> regex" where
  "Rep23 r = Seq r (Seq r (Opt r))"

fun seqs :: "regex list \<Rightarrow> regex" where
  "seqs [] = Lit []"
| "seqs [r] = r"
| "seqs (r # rs) = Seq r (seqs rs)"

fun alts :: "regex list \<Rightarrow> regex" where
  "alts [] = Cls []"
| "alts [r] = r"
| "alts (r # rs) = Alt r (alts rs)"

text \<open>
  \<^verbatim>\<open>exec\<close> from a start index: the leftmost start at which the pattern
  matches, with the first end that backtracking finds there.
\<close>

fun first_match :: "bool \<Rightarrow> regex \<Rightarrow> jsstring \<Rightarrow> nat list \<Rightarrow> (nat \<times> mstate) option" where
  "first_match ci r s [] = None"
| "first_match ci r s (k # ks) =
     (case rmatch ci s r (k, None) of
        [] \<Rightarrow> first_match ci r s ks
      | st # _ \<Rightarrow> Some (k, st))"

definition re_exec :: "bool \<Rightarrow> regex \<Rightarrow> jsstring \<Rightarrow> nat \<Rightarrow> (nat \<times> mstate) option" where
  "re_exec ci r s from = first_match ci r s [from..<Suc (length s)]"

definition re_test :: "bool \<Rightarrow> regex \<Rightarrow> jsstring \<Rightarrow> bool" where
  "re_test ci r s \<longleftrightarrow> re_exec ci r s 0 \<noteq> None"

definition substring :: "jsstring \<Rightarrow> nat \<Rightarrow> nat \<Rightarrow> jsstring" where
  "substring s a b = take (b - a) (drop a s)"

text \<open>\<^verbatim>\<open>s.match(r)\<close> without the \<^verbatim>\<open>g\<close> flag: the whole match and group 1.\<close>

definition re_match :: "bool \<Rightarrow> regex \<Rightarrow> jsstring \<Rightarrow> (jsstring \<times> jsstring option) option" where
  "re_match ci r s =
     (case re_exec ci r s 0 of
        None \<Rightarrow> None
      | Some (a, (b, g)) \<Rightarrow>
          Some (substring s a b, (case g of None \<Rightarrow> None | Some (c, d) \<Rightarrow> Some (substring s c d))))"

lemma first_match_bounds:
  "first_match ci r s ks = Some (a, (b, g)) \<Longrightarrow> a \<in> set ks \<and> a \<le> b"
proof (induction ks)
  case Nil
  then show ?case by simp
next
  case (Cons k ks)
  show ?case
  proof (cases "rmatch ci s r (k, None)")
    case Nil
    with Cons show ?thesis by simp
  next
    case (Cons st sts)
    with Cons.prems have eq: "a = k" "st = (b, g)" by simp_all
    with Cons have "(b, g) \<in> set (rmatch ci s r (a, None))" by simp
    from rmatch_advances [OF this] eq show ?thesis by simp
  qed
qed

lemma re_exec_bounds:
  "re_exec ci r s k = Some (a, (b, g)) \<Longrightarrow> k \<le> a \<and> a \<le> length s \<and> a \<le> b"
  using first_match_bounds [of ci r s "[k..<Suc (length s)]" a b g]
  by (auto simp: re_exec_def)

text \<open>
  The spans of all matches under the \<^verbatim>\<open>g\<close> flag: after a match the search
  goes on at its end, one unit further when the match was empty.
\<close>

function all_matches :: "bool \<Rightarrow> regex \<Rightarrow> jsstring \<Rightarrow> nat \<Rightarrow> (nat \<times> nat) list" where
  "all_matches ci r s k =
     (case re_exec ci r s k of
        None \<Rightarrow> []
      | Some (a, (b, g)) \<Rightarrow> (a, b) # all_matches ci r s (if b = a then Suc b else b))"
  by pat_completeness auto
termination
proof (relation "measure (\<lambda>(ci, r, s, k). Suc (length s) - k)", goal_cases)
  case 1
  then show ?case by simp
next
  case (2 ci r s k x2 a y b g)
  then have "re_exec ci r s k = Some (a, (b, g))" by simp
  from re_exec_bounds [OF this] show ?case by (auto split: if_splits)
qed

declare all_matches.simps [simp del]

text \<open>\<^verbatim>\<open>s.match(r)\<close> with the \<^verbatim>\<open>g\<close> flag: the matched substrings, \<open>None\<close> for \<^verbatim>\<open>null\<close>.\<close>

definition match_g :: "bool \<Rightarrow> regex \<Rightarrow> jsstring \<Rightarrow> jsstring list option" where
  "match_g ci r s =
     (case all_matches ci r s 0 of
        [] \<Rightarrow> None
      | m # ms \<Rightarrow> Some (map (\<lambda>(a, b). substring s a b) (m # ms)))"

text \<open>
  \<^verbatim>\<open>s.replace(r, rep)\<close>: the text between the matched spans, with the
  replacement in the place of each span.
\<close>

fun splice :: "jsstring \<Rightarrow> jsstring \<Rightarrow> nat \<Rightarrow> (nat \<times> nat) list \<Rightarrow> jsstring" where
  "splice s rep pos [] = drop pos s"
| "splice s rep pos ((a, b) # ms) =
     (if pos \<le> a then substring s pos a @ rep @ splice s rep b ms
      else splice s rep pos ms)"

definition replace_g :: "bool \<Rightarrow> regex \<Rightarrow> jsstring \<Rightarrow> jsstring \<Rightarrow> jsstring" where
  "replace_g ci r rep s = splice s rep 0 (all_matches ci r s 0)"

definition replace_first :: "bool \<Rightarrow> regex \<Rightarrow> jsstring \<Rightarrow> jsstring \<Rightarrow> jsstring" where
  "replace_first ci r rep s =
     (case re_exec ci r s 0 of
        None \<Rightarrow> s
      | Some (a, (b, g)) \<Rightarrow> take a s @ rep @ drop b s)"

text \<open>\<^verbatim>\<open>s.replace(c, rep)\<close> with a one-unit string pattern: the first occurrence.\<close>

fun replace_unit :: "nat \<Rightarrow> jsstring \<Rightarrow> jsstring \<Rightarrow> jsstring" where
  "replace_unit c rep [] = []"
| "replace_unit c rep (d # ds) = (if d = c then rep @ ds else d # replace_unit c rep ds)"

section \<open>Numbers\<close>

text \<open>
  A JavaScript number is a finite value, one of the two infinities, or NaN.
  Finite values are rationals here: the decimal numerals that the parser reads
  keep their exact value, and so do products and quotients. What a double adds
  is left out: the rounding to 53 bits, the overflow to an infinity and the
  underflow to zero.
\<close>

datatype jsnum = Fin rat | PosInf | NegInf | NaN

text \<open>Truthiness of a number: \<^verbatim>\<open>0\<close> and \<^verbatim>\<open>NaN\<close> are falsy.\<close>

fun truthy :: "jsnum \<Rightarrow> bool" where
  "truthy (Fin q) = (q \<noteq> 0)"
| "truthy PosInf = True"
| "truthy NegInf = True"
| "truthy NaN = False"

fun js_sgn :: "jsnum \<Rightarrow> int" where
  "js_sgn (Fin q) = (if q < 0 then - 1 else if q = 0 then 0 else 1)"
| "js_sgn PosInf = 1"
| "js_sgn NegInf = - 1"
| "js_sgn NaN = 0"

definition signed_inf :: "int \<Rightarrow> jsnum" where
  "signed_inf k = (if k < 0 then NegInf else PosInf)"

fun js_mul :: "jsnum \<Rightarrow> jsnum \<Rightarrow> jsnum" where
  "js_mul NaN y = NaN"
| "js_mul x NaN = NaN"
| "js_mul (Fin a) (Fin b) = Fin (a * b)"
| "js_mul x y = (if js_sgn x = 0 \<or> js_sgn y = 0 then NaN else signed_inf (js_sgn x * js_sgn y))"

fun js_div :: "jsnum \<Rightarrow> jsnum \<Rightarrow> jsnum" where
  "js_div NaN y = NaN"
| "js_div x NaN = NaN"
| "js_div (Fin a) (Fin b) =
     (if b = 0 then (if a = 0 then NaN else signed_inf (js_sgn (Fin a))) else Fin (a / b))"
| "js_div (Fin a) y = Fin 0"
| "js_div x (Fin b) = signed_inf (js_sgn x * (if b < 0 then - 1 else 1))"
| "js_div x y = NaN"

fun js_less :: "jsnum \<Rightarrow> jsnum \<Rightarrow> bool" where
  "js_less NaN y = False"
| "js_less x NaN = False"
| "js_less (Fin a) (Fin b) = (a < b)"
| "js_less x PosInf = (x \<noteq> PosInf)"
| "js_less NegInf y = (y \<noteq> NegInf)"
| "js_less x y = False"

text \<open>\<^verbatim>\<open>Math.max(...xs)\<close>: minus infinity for no argument, NaN as soon as one is.\<close>

fun js_max2 :: "jsnum \<Rightarrow> jsnum \<Rightarrow> jsnum" where
  "js_max2 NaN y = NaN"
| "js_max2 x NaN = NaN"
| "js_max2 x y = (if js_less x y then y else x)"

definition Math_max :: "jsnum list \<Rightarrow> jsnum" where
  "Math_max xs = foldl js_max2 NegInf xs"

definition digit_val :: "nat \<Rightarrow> nat" where
  "digit_val c = c - 48"

definition digits_val :: "jsstring \<Rightarrow> nat" where
  "digits_val ds = foldl (\<lambda>a c. 10 * a + digit_val c) 0 ds"

definition scale10 :: "nat \<Rightarrow> int \<Rightarrow> rat" where
  "scale10 m e = (if 0 \<le> e then of_nat m * 10 ^ nat e else of_nat m / 10 ^ nat (- e))"

text \<open>
  \<^verbatim>\<open>parseFloat\<close>: leading white space is skipped, then the longest prefix that
  is a decimal literal (sign, \<^verbatim>\<open>Infinity\<close>, digits with an optional fraction and
  an optional exponent) is read; NaN when there is none.
\<close>

definition read_exponent :: "jsstring \<Rightarrow> int" where
  "read_exponent r =
     (case r of
        [] \<Rightarrow> 0
      | c # r1 \<Rightarrow>
          if c = 101 \<or> c = 69 then
            (let neg = (r1 \<noteq> [] \<and> hd r1 = 45);
                 r2 = (if r1 \<noteq> [] \<and> (hd r1 = 45 \<or> hd r1 = 43) then tl r1 else r1);
                 ds = takeWhile is_digit r2
             in if ds = [] then 0
                else if neg then - int (digits_val ds) else int (digits_val ds))
          else 0)"

definition read_decimal :: "jsstring \<Rightarrow> rat option" where
  "read_decimal r =
     (let ints = takeWhile is_digit r;
          r1 = dropWhile is_digit r;
          dot = (r1 \<noteq> [] \<and> hd r1 = 46);
          fracs = (if dot then takeWhile is_digit (tl r1) else []);
          r2 = (if dot then dropWhile is_digit (tl r1) else r1)
      in if ints = [] \<and> fracs = [] then None
         else Some (scale10 (digits_val (ints @ fracs)) (read_exponent r2 - int (length fracs))))"

definition parseFloat :: "jsstring \<Rightarrow> jsnum" where
  "parseFloat s =
     (let t = trimStart s;
          neg = (t \<noteq> [] \<and> hd t = 45);
          r = (if t \<noteq> [] \<and> (hd t = 45 \<or> hd t = 43) then tl t else t)
      in if startsWith r (asc ''Infinity'') then (if neg then NegInf else PosInf)
         else (case read_decimal r of
                 None \<Rightarrow> NaN
               | Some q \<Rightarrow> Fin (if neg then - q else q)))"

text \<open>
  \<^verbatim>\<open>parseInt\<close> with no radix: white space, a sign, an optional \<^verbatim>\<open>0x\<close> prefix
  that selects base 16, then the longest prefix of digits of the base. Its
  result is an integer or NaN (\<open>None\<close>).
\<close>

definition hex_val :: "nat \<Rightarrow> nat option" where
  "hex_val c =
     (if is_digit c then Some (c - 48)
      else if 97 \<le> c \<and> c \<le> 102 then Some (c - 87)
      else if 65 \<le> c \<and> c \<le> 70 then Some (c - 55)
      else None)"

definition parseInt :: "jsstring \<Rightarrow> int option" where
  "parseInt s =
     (let t = trimStart s;
          neg = (t \<noteq> [] \<and> hd t = 45);
          r = (if t \<noteq> [] \<and> (hd t = 45 \<or> hd t = 43) then tl t else t);
          hex = (startsWith r (asc ''0x'') \<or> startsWith r (asc ''0X''));
          m = (if hex
               then (let ds = takeWhile (\<lambda>c. hex_val c \<noteq> None) (drop 2 r)
                     in if ds = [] then None
                        else Some (foldl (\<lambda>a c. 16 * a + the (hex_val c)) 0 ds))
               else (let ds = takeWhile is_digit r
                     in if ds = [] then None else Some (digits_val ds)))
      in (case m of
            None \<Rightarrow> None
          | Some n \<Rightarrow> Some (if neg then - int n else int n)))"

text \<open>
  The decimal numeral of a natural number, as a template literal prints the
  small non-negative integers that the source formats. Every digit is printed:
  the exponent form in which the engine prints a double from 10 to the power 21
  on is left out.
\<close>

fun nat_to_string :: "nat \<Rightarrow> jsstring" where
  "nat_to_string n =
     (if n < 10 then [48 + n] else nat_to_string (n div 10) @ [48 + n mod 10])"

declare nat_to_string.simps [simp del]

text \<open>A value of \<^verbatim>\<open>parseInt\<close> in a template literal.\<close>

definition int_to_string :: "int option \<Rightarrow> jsstring" where
  "int_to_string v =
     (case v of
        None \<Rightarrow> asc ''NaN''
      | Some k \<Rightarrow> if k < 0 then 45 # nat_to_string (nat (- k)) else nat_to_string (nat k))"

definition int_truthy :: "int option \<Rightarrow> bool" where
  "int_truthy v = (case v of None \<Rightarrow> False | Some k \<Rightarrow> k \<noteq> 0)"

section \<open>The hierarchy model\<close>

text \<open>
  The interfaces \<^verbatim>\<open>GAEBHeader\<close>, \<^verbatim>\<open>GAEBPosition\<close> and \<^verbatim>\<open>GAEBData\<close>. An
  optional field is an \<open>option\<close>, \<open>None\<close> being \<^verbatim>\<open>undefined\<close>. The fields
  \<^verbatim>\<open>id\<close> and \<^verbatim>\<open>type\<close> of a position are \<open>node_id\<close> and \<open>node_type\<close>, and the
  fields of the header carry the prefix \<open>header_\<close>.
\<close>

record gaeb_header =
  header_version :: "jsstring option"
  header_project :: "jsstring option"
  header_description :: "jsstring option"
  header_date :: "jsstring option"
  header_format :: "jsstring option"

datatype position_type = TypeTitle | TypePosition | TypeText | TypeCalculation

record gaeb_position =
  node_id :: jsstring
  positionNumber :: "jsstring option"
  title :: jsstring
  description :: "jsstring option"
  unit :: "jsstring option"
  quantity :: "jsnum option"
  unitPrice :: "jsnum option"
  totalPrice :: "jsnum option"
  level :: nat
  parent :: "jsstring option"
  children :: "jsstring list option"
  node_type :: position_type

record gaeb_data =
  header :: gaeb_header
  positions :: "gaeb_position list"
  rawContent :: jsstring
  fileName :: jsstring
  processedAt :: jsstring
  totalPositions :: nat

definition empty_header :: gaeb_header where
  "empty_header =
     \<lparr>header_version = None, header_project = None, header_description = None,
      header_date = None, header_format = None\<rparr>"

text \<open>\<^verbatim>\<open>a || b\<close> on a string that may be \<^verbatim>\<open>undefined\<close> or \<^verbatim>\<open>null\<close>: the empty string is falsy too.\<close>

definition str_truthy :: "jsstring option \<Rightarrow> bool" where
  "str_truthy v = (case v of None \<Rightarrow> False | Some s \<Rightarrow> s \<noteq> [])"

definition str_or :: "jsstring option \<Rightarrow> jsstring \<Rightarrow> jsstring" where
  "str_or v d = (case v of None \<Rightarrow> d | Some s \<Rightarrow> if s = [] then d else s)"

text \<open>\<^verbatim>\<open>v || undefined\<close>.\<close>

definition str_or_undefined :: "jsstring \<Rightarrow> jsstring option" where
  "str_or_undefined s = (if s = [] then None else Some s)"

definition num_truthy :: "jsnum option \<Rightarrow> bool" where
  "num_truthy v = (case v of None \<Rightarrow> False | Some x \<Rightarrow> truthy x)"

section \<open>The patterns of the heuristic line parser\<close>

definition dg :: regex where "dg = Cls [CDigit]"
definition sp :: regex where "sp = Cls [CSpace]"

text \<open>\<^verbatim>\<open>[,\.]\<close>\<close>
definition sep :: regex where "sep = Cls [CChar 44, CChar 46]"

text \<open>\<^verbatim>\<open>(?:\.\d+)*\<close>\<close>
definition dotted :: regex where "dotted = Star (Seq (Lit [46]) (Plus dg))"

text \<open>\<^verbatim>\<open>[A-Z\<Uuml>\<Auml>\<Ouml>]\<close> with the three capital umlauts.\<close>
definition capital :: "citem list" where
  "capital = [CRange 65 90, CChar UUML, CChar AUML, CChar OUML]"

text \<open>
  The unit vocabulary: square and cubic metre written with the superscript
  digits, then the abbreviations as the source lists them.
\<close>

definition units_short :: "jsstring list" where
  "units_short =
     [asc ''m'' @ [SUP2], asc ''m'' @ [SUP3], asc ''lfm'', asc ''kg'', asc ''t'', asc ''Stk'',
      asc ''psch'', asc ''St'', asc ''qm'', asc ''cbm'', asc ''to'', asc ''lfd'', asc ''Std'',
      asc ''h'', asc ''m'']"

definition units_all :: "jsstring list" where
  "units_all = units_short @ [asc ''cm'', asc ''mm'', asc ''l'', asc ''kWh'', asc ''Pfl'', asc ''bgl'']"

definition currency_tokens :: "jsstring list" where
  "currency_tokens = [asc ''EUR'', [EURO], asc ''DM'']"

text \<open>The seven tests of \<^verbatim>\<open>looksLikePosition\<close>, in the order of the source.\<close>

text \<open>\<^verbatim>\<open>/^\s*\d+(\.\d+)*[A-Za-z]?\s+/\<close>\<close>
definition looks_numbered :: regex where
  "looks_numbered =
     seqs [Bol, Star sp, Plus dg, dotted, Opt (Cls [CRange 65 90, CRange 97 122]), Plus sp]"

text \<open>\<^verbatim>\<open>/^\s*[A-Z]\d+(\.\d+)*\s+/\<close>\<close>
definition looks_lettered :: regex where
  "looks_lettered = seqs [Bol, Star sp, Cls [CRange 65 90], Plus dg, dotted, Plus sp]"

text \<open>\<^verbatim>\<open>/\b(m\<^sup>2|m\<^sup>3|lfm|...|Pfl|bgl)\b/i\<close>\<close>
definition looks_unit :: regex where
  "looks_unit = seqs [WordB, alts (map Lit units_all), WordB]"

text \<open>\<^verbatim>\<open>/\d+[,\.]\d+\s*(EURO|EUR|DM)/i\<close>, EURO standing for the euro sign.\<close>
definition looks_price :: regex where
  "looks_price = seqs [Plus dg, sep, Plus dg, Star sp, alts [Lit [EURO], Lit (asc ''EUR''), Lit (asc ''DM'')]]"

text \<open>\<^verbatim>\<open>/^\s*\d+\s+[A-Z\<Uuml>\<Auml>\<Ouml>]/\<close>\<close>
definition looks_heading :: regex where
  "looks_heading = seqs [Bol, Star sp, Plus dg, Plus sp, Cls capital]"

text \<open>\<^verbatim>\<open>/\d+[,\.]?\d*\s+(m\<^sup>2|m\<^sup>3|lfm|...|h|m)\b/i\<close>\<close>
definition looks_quantity :: regex where
  "looks_quantity = seqs [Plus dg, Opt sep, Star dg, Plus sp, alts (map Lit units_short), WordB]"

text \<open>\<^verbatim>\<open>/\b(Beton|Mauerwerk|Estrich|Fliesen|Putz|Anstrich|D\<auml>mmung|Installation|Montage|Lieferung)\b/i\<close>\<close>
definition looks_trade :: regex where
  "looks_trade =
     seqs [WordB,
           alts (map Lit
             [asc ''Beton'', asc ''Mauerwerk'', asc ''Estrich'', asc ''Fliesen'', asc ''Putz'',
              asc ''Anstrich'', asc ''D'' @ [auml] @ asc ''mmung'', asc ''Installation'',
              asc ''Montage'', asc ''Lieferung'']),
           WordB]"

text \<open>The patterns of \<^verbatim>\<open>parsePosition\<close>.\<close>

text \<open>\<^verbatim>\<open>/^\s*(\d+(?:\.\d+)*[A-Za-z]?)\s+/\<close>, \<^verbatim>\<open>/^\s*([A-Z]\d+(?:\.\d+)*)\s+/\<close>, \<^verbatim>\<open>/^\s*(\d{2,3})\s+/\<close>\<close>
definition positionNumberPatterns :: "regex list" where
  "positionNumberPatterns =
     [seqs [Bol, Star sp, Group (seqs [Plus dg, dotted, Opt (Cls [CRange 65 90, CRange 97 122])]), Plus sp],
      seqs [Bol, Star sp, Group (seqs [Cls [CRange 65 90], Plus dg, dotted]), Plus sp],
      seqs [Bol, Star sp, Group (Rep23 dg), Plus sp]]"

text \<open>\<^verbatim>\<open>/(\d+[,\.]\d+)/g\<close>, \<^verbatim>\<open>/(\d+)/g\<close>\<close>
definition numberPatterns :: "regex list" where
  "numberPatterns = [Group (seqs [Plus dg, sep, Plus dg]), Group (Plus dg)]"

text \<open>\<^verbatim>\<open>/\b(m\<^sup>2|m\<^sup>3|lfm|...|Pfl|bgl|EUR|EURO|DM)\b/i\<close>\<close>
definition unitPattern :: regex where
  "unitPattern = seqs [WordB, alts (map Lit (units_all @ currency_tokens)), WordB]"

text \<open>
  \<^verbatim>\<open>/(\d+[,\.]\d+)\s*(?:EURO|EUR)/i\<close>, \<^verbatim>\<open>/(\d+[,\.]\d+)\s*DM/i\<close>,
  \<^verbatim>\<open>/EURO\s*(\d+[,\.]\d+)/i\<close>, \<^verbatim>\<open>/EUR\s*(\d+[,\.]\d+)/i\<close>
\<close>
definition currencyPatterns :: "regex list" where
  "currencyPatterns =
     [seqs [Group (seqs [Plus dg, sep, Plus dg]), Star sp, alts [Lit [EURO], Lit (asc ''EUR'')]],
      seqs [Group (seqs [Plus dg, sep, Plus dg]), Star sp, Lit (asc ''DM'')],
      seqs [Lit [EURO], Star sp, Group (seqs [Plus dg, sep, Plus dg])],
      seqs [Lit (asc ''EUR''), Star sp, Group (seqs [Plus dg, sep, Plus dg])]]"

text \<open>\<^verbatim>\<open>/^\s*\d+\s+[A-Z\<Uuml>\<Auml>\<Ouml>][A-Z\<Uuml>\<Auml>\<Ouml>\s]+$/\<close>\<close>
definition section_title :: regex where
  "section_title = seqs [Bol, Star sp, Plus dg, Plus sp, Cls capital, Plus (Cls (capital @ [CSpace])), Eol]"

text \<open>\<^verbatim>\<open>/\b(gesamt|summe|total|zwischensumme)\b/i\<close>\<close>
definition summary_line :: regex where
  "summary_line =
     seqs [WordB, alts (map Lit [asc ''gesamt'', asc ''summe'', asc ''total'', asc ''zwischensumme'']), WordB]"

text \<open>
  The three patterns that the source builds with \<^verbatim>\<open>new RegExp\<close>. The position
  number and the unit are escaped there before they are spliced in, which makes
  them literals.
\<close>

text \<open>\<^verbatim>\<open>^\s*<positionNumber>\s*\<close>\<close>
definition leading_number :: "jsstring \<Rightarrow> regex" where
  "leading_number pn = seqs [Bol, Star sp, Lit pn, Star sp]"

text \<open>\<^verbatim>\<open>\d+[,\.]\d*\s*(?:EURO|EUR|DM)\<close> with the flags \<^verbatim>\<open>gi\<close>\<close>
definition pricePattern :: regex where
  "pricePattern = seqs [Plus dg, sep, Star dg, Star sp, alts [Lit [EURO], Lit (asc ''EUR''), Lit (asc ''DM'')]]"

text \<open>\<^verbatim>\<open>\d+[,\.]?\d*\s*<unit>\<close> with the flags \<^verbatim>\<open>gi\<close>\<close>
definition quantityPattern :: "jsstring \<Rightarrow> regex" where
  "quantityPattern u = seqs [Plus dg, Opt sep, Star dg, Star sp, Lit u]"

text \<open>\<^verbatim>\<open>/^\d+[\.\s]*/\<close>\<close>
definition numeric_prefix :: regex where
  "numeric_prefix = seqs [Bol, Plus dg, Star (Cls [CChar 46, CSpace])]"

section \<open>The heuristic line parser\<close>

definition detectGAEBFormat :: "jsstring \<Rightarrow> jsstring" where
  "detectGAEBFormat content =
     (if js_includes content (asc ''D81'') \<or> js_includes content (asc ''d81'') then asc ''D81''
      else if js_includes content (asc ''D83'') \<or> js_includes content (asc ''d83'') then asc ''D83''
      else if js_includes content (asc ''D84'') \<or> js_includes content (asc ''d84'') then asc ''D84''
      else if js_includes content (asc ''P81'') \<or> js_includes content (asc ''p81'') then asc ''P81''
      else if js_includes content (asc ''P83'') \<or> js_includes content (asc ''p83'') then asc ''P83''
      else if js_includes content (asc ''X81'') \<or> js_includes content (asc ''x81'') then asc ''X81''
      else if js_includes content (asc ''X83'') \<or> js_includes content (asc ''x83'') then asc ''X83''
      else asc ''Unknown'')"

definition extractValue :: "jsstring \<Rightarrow> jsstring" where
  "extractValue line =
     (let parts = split 58 line
      in if 1 < length parts then trim (join [58] (tl parts)) else line)"

definition looksLikePosition :: "jsstring \<Rightarrow> bool" where
  "looksLikePosition line =
     (let trimmedLine = trim line
      in if trimmedLine = [] \<or> length trimmedLine < 3 then False
         else if js_includes (toLowerCase trimmedLine) (asc ''header'')
                 \<or> js_includes (toLowerCase trimmedLine) (asc ''projekt'') then False
         else re_test False looks_numbered line
              \<or> re_test False looks_lettered line
              \<or> re_test True looks_unit line
              \<or> re_test True looks_price line
              \<or> re_test False looks_heading line
              \<or> re_test True looks_quantity line
              \<or> re_test True looks_trade line)"

text \<open>The first pattern of a list that matches, and its group 1.\<close>

fun first_group :: "bool \<Rightarrow> regex list \<Rightarrow> jsstring \<Rightarrow> jsstring option" where
  "first_group ci [] s = None"
| "first_group ci (r # rs) s =
     (case re_match ci r s of
        None \<Rightarrow> first_group ci rs s
      | Some (whole, g) \<Rightarrow> g)"

text \<open>The first pattern of a list that matches with the \<^verbatim>\<open>g\<close> flag gives the numbers.\<close>

fun first_numbers :: "regex list \<Rightarrow> jsstring \<Rightarrow> jsstring list" where
  "first_numbers [] s = []"
| "first_numbers (r # rs) s =
     (case match_g False r s of
        None \<Rightarrow> first_numbers rs s
      | Some ms \<Rightarrow> ms)"

text \<open>\<^verbatim>\<open>parseFloat(n.replace(',', '.'))\<close>\<close>

definition clean_number :: "jsstring \<Rightarrow> jsnum" where
  "clean_number n = parseFloat (replace_unit 44 [46] n)"

definition is_currency_token :: "jsstring \<Rightarrow> bool" where
  "is_currency_token u \<longleftrightarrow> u = [EURO] \<or> u = asc ''EUR'' \<or> u = asc ''DM''"

text \<open>The type of a line, by the first test that holds (the default is a position).\<close>

definition detect_type ::
  "jsstring \<Rightarrow> jsstring option \<Rightarrow> jsnum option \<Rightarrow> jsstring option \<Rightarrow> position_type" where
  "detect_type trimmedLine positionNumber' currencyAmount unit' =
     (if re_test False section_title trimmedLine then TypeTitle
      else if \<not> str_truthy positionNumber' \<and> 80 < length trimmedLine \<and> \<not> num_truthy currencyAmount
        then TypeText
      else if currencyAmount \<noteq> None \<or> str_truthy unit' then TypePosition
      else if re_test True summary_line trimmedLine then TypeCalculation
      else TypePosition)"

text \<open>The title: the trimmed line without its number, its prices and its quantities.\<close>

definition derive_title ::
  "jsstring \<Rightarrow> nat \<Rightarrow> jsstring option \<Rightarrow> jsnum option \<Rightarrow> jsstring option \<Rightarrow> jsstring" where
  "derive_title trimmedLine index positionNumber' currencyAmount unit' =
     (let t1 = (if str_truthy positionNumber'
                then replace_first False (leading_number (the positionNumber')) [] trimmedLine
                else trimmedLine);
          t2 = (if num_truthy currencyAmount then replace_g True pricePattern [] t1 else t1);
          t3 = (if str_truthy unit' \<and> \<not> is_currency_token (the unit')
                then replace_g True (quantityPattern (the unit')) [] t2
                else t2);
          t4 = trim (replace_g False (Plus sp) [32] t3)
      in if t4 = [] \<or> length t4 < 3
         then str_or (Some (trim (replace_first False numeric_prefix [] trimmedLine)))
                (asc ''Position '' @ nat_to_string (index + 1))
         else t4)"

text \<open>The level: a quarter of the indentation, raised to the number of dots.\<close>

definition derive_level :: "jsstring \<Rightarrow> jsstring option \<Rightarrow> nat" where
  "derive_level line positionNumber' =
     (let leadingSpaces = length line - length (trimStart line);
          level0 = leadingSpaces div 4
      in if str_truthy positionNumber'
         then max level0 (length (filter (\<lambda>c. c = 46) (the positionNumber')))
         else level0)"

text \<open>The description: the first of the next two lines that is no position and is long enough.\<close>

definition lookahead_description :: "jsstring list \<Rightarrow> nat \<Rightarrow> jsstring" where
  "lookahead_description allLines currentIndex =
     (case find (\<lambda>nextLine. nextLine \<noteq> [] \<and> \<not> looksLikePosition nextLine \<and> 10 < length (trim nextLine))
             (take 2 (drop (currentIndex + 1) allLines)) of
        None \<Rightarrow> []
      | Some nextLine \<Rightarrow> trim nextLine)"

text \<open>
  Quantity, unit price and total price (in this order) from the type, the
  numbers of the line and the currency amount.
\<close>

definition derive_pricing ::
  "position_type \<Rightarrow> jsnum list \<Rightarrow> jsnum option \<Rightarrow> jsnum option \<times> jsnum option \<times> jsnum option" where
  "derive_pricing type' cleanNumbers currencyAmount =
     (if type' = TypePosition \<and> 0 < length cleanNumbers then
        if num_truthy currencyAmount \<and> length cleanNumbers = 1 then
          (Some (cleanNumbers ! 0), currencyAmount,
           Some (js_mul (cleanNumbers ! 0) (the currencyAmount)))
        else if num_truthy currencyAmount \<and> 2 \<le> length cleanNumbers then
          (Some (cleanNumbers ! 0), currencyAmount, Some (cleanNumbers ! 1))
        else if 2 \<le> length cleanNumbers \<and> \<not> num_truthy currencyAmount then
          (let largerNumber = Math_max (drop 1 cleanNumbers)
           in if js_less (Fin 1) largerNumber
              then (Some (cleanNumbers ! 0), Some (js_div largerNumber (cleanNumbers ! 0)),
                    Some largerNumber)
              else (Some (cleanNumbers ! 0), None, None))
        else if length cleanNumbers = 1 \<and> \<not> num_truthy currencyAmount then
          (Some (cleanNumbers ! 0), None, None)
        else (None, None, None)
      else (None, None, None))"

text \<open>
  \<^verbatim>\<open>parsePosition\<close>. The result is \<open>None\<close> where the source returns \<^verbatim>\<open>null\<close>
  from its \<^verbatim>\<open>catch\<close>. This is the function on an engine that completes every
  step of the body, so it always yields a node; the section on the limits of the
  engine has the function on any engine.
\<close>

definition parsePosition :: "jsstring \<Rightarrow> nat \<Rightarrow> jsstring list \<Rightarrow> nat \<Rightarrow> gaeb_position option" where
  "parsePosition line index allLines currentIndex =
     (let trimmedLine = trim line;
          positionNumber' = first_group False positionNumberPatterns line;
          id' = str_or positionNumber' (asc ''pos_'' @ nat_to_string (index + 1));
          numbers = first_numbers numberPatterns line;
          cleanNumbers = map clean_number numbers;
          unit' = map_option fst (re_match True unitPattern line);
          currencyAmount = map_option clean_number (first_group True currencyPatterns line);
          type' = detect_type trimmedLine positionNumber' currencyAmount unit';
          title' = derive_title trimmedLine index positionNumber' currencyAmount unit';
          level' = derive_level line positionNumber';
          description' = lookahead_description allLines currentIndex;
          pricing = derive_pricing type' cleanNumbers currencyAmount
      in Some \<lparr>node_id = id',
               positionNumber = positionNumber',
               title = title',
               description = str_or_undefined description',
               unit = (if str_truthy unit' \<and> \<not> is_currency_token (the unit') then unit' else None),
               quantity = fst pricing,
               unitPrice = fst (snd pricing),
               totalPrice = snd (snd pricing),
               level = level',
               parent = None,
               children = None,
               node_type = type'\<rparr>)"

text \<open>The state of the loop of \<^verbatim>\<open>parseTextGAEB\<close>.\<close>

datatype section_mode = InHeader | InPositions

record text_state =
  ts_header :: gaeb_header
  currentSection :: section_mode
  positionCounter :: nat
  ts_positions :: "gaeb_position list"

definition scan_header :: "jsstring \<Rightarrow> gaeb_header \<Rightarrow> gaeb_header" where
  "scan_header line h =
     (let low = toLowerCase line
      in if js_includes low (asc ''project'') \<or> js_includes low (asc ''projekt'')
           then h\<lparr>header_project := Some (extractValue line)\<rparr>
         else if js_includes low (asc ''version'')
           then h\<lparr>header_version := Some (extractValue line)\<rparr>
         else if js_includes low (asc ''date'') \<or> js_includes low (asc ''datum'')
           then h\<lparr>header_date := Some (extractValue line)\<rparr>
         else if js_includes low (asc ''description'') \<or> js_includes low (asc ''beschreibung'')
           then h\<lparr>header_description := Some (extractValue line)\<rparr>
         else h)"

text \<open>One round of the loop over the lines, for the line at index \<open>i\<close>.\<close>

definition text_step :: "jsstring list \<Rightarrow> nat \<Rightarrow> text_state \<Rightarrow> text_state" where
  "text_step lines i st =
     (let line = lines ! i
      in if line = [] then st
         else
           (let st1 = (if currentSection st = InHeader
                       then st\<lparr>ts_header := scan_header line (ts_header st),
                               currentSection :=
                                 (if looksLikePosition line then InPositions else InHeader)\<rparr>
                       else st)
            in if currentSection st1 = InPositions \<and> looksLikePosition line
               then (case parsePosition line (positionCounter st1) lines i of
                       None \<Rightarrow> st1\<lparr>positionCounter := positionCounter st1 + 1\<rparr>
                     | Some position \<Rightarrow>
                         st1\<lparr>positionCounter := positionCounter st1 + 1,
                             ts_positions := ts_positions st1 @ [position]\<rparr>)
               else st1))"

text \<open>
  \<^verbatim>\<open>parseTextGAEB\<close>. The time stamp \<^verbatim>\<open>new Date().toISOString()\<close> is the
  argument \<open>now\<close>.
\<close>

definition parseTextGAEB :: "jsstring \<Rightarrow> jsstring \<Rightarrow> jsstring \<Rightarrow> gaeb_data" where
  "parseTextGAEB now content fileName' =
     (let lines = filter (\<lambda>line. line \<noteq> []) (map trim (split 10 content));
          start = \<lparr>ts_header = empty_header\<lparr>header_format := Some (detectGAEBFormat content)\<rparr>,
                   currentSection = InHeader,
                   positionCounter = 0,
                   ts_positions = []\<rparr>;
          final = fold (text_step lines) [0..<length lines] start
      in \<lparr>header = ts_header final,
          positions = ts_positions final,
          rawContent = content,
          fileName = fileName',
          processedAt = now,
          totalPositions = length (ts_positions final)\<rparr>)"

section \<open>The document tree of the structured-markup path\<close>

text \<open>
  What the parser reads of a DOM tree: elements with their local name, their
  attributes and their children, and text nodes. An element is handled together
  with the names of its ancestors (the nearest first), which a selector with
  descendant combinators looks at.
\<close>

datatype xnode = Elem jsstring "(jsstring \<times> jsstring) list" "xnode list" | TextNode jsstring

type_synonym element = "jsstring list \<times> xnode"

fun localName :: "xnode \<Rightarrow> jsstring" where
  "localName (Elem t as kids) = t"
| "localName (TextNode s) = []"

fun getAttribute :: "element \<Rightarrow> jsstring \<Rightarrow> jsstring option" where
  "getAttribute (anc, Elem t as kids) name = map_of as name"
| "getAttribute (anc, TextNode s) name = None"

fun node_text :: "xnode \<Rightarrow> jsstring" where
  "node_text (TextNode s) = s"
| "node_text (Elem t as kids) = concat (map node_text kids)"

definition textContent :: "element \<Rightarrow> jsstring" where
  "textContent e = node_text (snd e)"

text \<open>An element and the elements below it, in document order.\<close>

fun elems :: "jsstring list \<Rightarrow> xnode \<Rightarrow> element list" where
  "elems anc (TextNode s) = []"
| "elems anc (Elem t as kids) = (anc, Elem t as kids) # concat (map (elems (t # anc)) kids)"

fun descendants :: "element \<Rightarrow> element list" where
  "descendants (anc, TextNode s) = []"
| "descendants (anc, Elem t as kids) = concat (map (elems (t # anc)) kids)"

text \<open>
  A selector of the source is a list of element names joined by descendant
  combinators, outermost first. \<open>has_chain\<close> looks for the outer names,
  innermost first, among the ancestors.
\<close>

fun has_chain :: "jsstring list \<Rightarrow> jsstring list \<Rightarrow> bool" where
  "has_chain [] anc = True"
| "has_chain (t # ts) [] = False"
| "has_chain (t # ts) (a # anc) = (if a = t then has_chain ts anc else has_chain (t # ts) anc)"

definition selects :: "jsstring list \<Rightarrow> element \<Rightarrow> bool" where
  "selects sel e \<longleftrightarrow>
     sel \<noteq> [] \<and> localName (snd e) = last sel \<and> has_chain (rev (butlast sel)) (fst e)"

definition querySelectorAll :: "element \<Rightarrow> jsstring list \<Rightarrow> element list" where
  "querySelectorAll e sel = filter (selects sel) (descendants e)"

definition querySelector :: "element \<Rightarrow> jsstring list \<Rightarrow> element option" where
  "querySelector e sel = find (selects sel) (descendants e)"

text \<open>\<^verbatim>\<open>querySelector\<close> on the document: the root element is a candidate too.\<close>

definition doc_querySelector :: "xnode \<Rightarrow> jsstring list \<Rightarrow> element option" where
  "doc_querySelector doc sel = find (selects sel) (elems [] doc)"

text \<open>
  What a call that may throw does. \<^verbatim>\<open>new DOMParser().parseFromString\<close> is the
  browser's: it is an argument of the parser, and it either throws or returns
  the root of a document.
\<close>

datatype 'a outcome = Throws | Returns 'a

type_synonym dom_parser = "jsstring \<Rightarrow> xnode outcome"

section \<open>The structured-markup parser\<close>

definition detectXMLGAEBFormat :: "jsstring \<Rightarrow> jsstring" where
  "detectXMLGAEBFormat content =
     (if js_includes content (asc ''DA83/3.3'') then asc ''X83''
      else if js_includes content (asc ''DA84'') then asc ''X84''
      else if js_includes content (asc ''DA81'') then asc ''X81''
      else if js_includes content (asc ''<GAEB'') then asc ''XML GAEB''
      else asc ''XML'')"

text \<open>\<^verbatim>\<open>e.textContent?.trim() || d\<close>\<close>

definition trimmed_text_or :: "element \<Rightarrow> jsstring \<Rightarrow> jsstring" where
  "trimmed_text_or e d = str_or (Some (trim (textContent e))) d"

definition parseXMLCategory :: "element \<Rightarrow> nat \<Rightarrow> int option \<Rightarrow> gaeb_position option" where
  "parseXMLCategory categoryElement index categoryNumber =
     (let id' = str_or (getAttribute categoryElement (asc ''ID'')) (asc ''cat_'' @ nat_to_string (index + 1));
          title0 = asc ''Unknown Category'';
          title' =
            (case querySelector categoryElement [asc ''LblTx''] of
               None \<Rightarrow> title0
             | Some lblTxElement \<Rightarrow>
                 (case querySelector lblTxElement [asc ''span''] of
                    Some spanElement \<Rightarrow> trimmed_text_or spanElement title0
                  | None \<Rightarrow>
                      (case querySelector lblTxElement [asc ''p''] of
                         Some pElement \<Rightarrow> trimmed_text_or pElement title0
                       | None \<Rightarrow> trimmed_text_or lblTxElement title0)))
      in Some \<lparr>node_id = id',
               positionNumber = Some (int_to_string categoryNumber),
               title = title',
               description = None,
               unit = None,
               quantity = None,
               unitPrice = None,
               totalPrice = None,
               level = 0,
               parent = None,
               children = None,
               node_type = TypeTitle\<rparr>)"

text \<open>Title and description of an item from its \<^verbatim>\<open>Description\<close> element.\<close>

definition item_texts :: "element \<Rightarrow> jsstring \<Rightarrow> jsstring \<times> jsstring" where
  "item_texts itemElement rNoPart =
     (let title0 = asc ''Position '' @ rNoPart
      in case querySelector itemElement [asc ''Description''] of
           None \<Rightarrow> (title0, [])
         | Some descriptionElement \<Rightarrow>
             (let title1 =
                    (case querySelector descriptionElement
                            [asc ''OutlineText'', asc ''TextOutlTxt'', asc ''span''] of
                       None \<Rightarrow> title0
                     | Some outlineTextElement \<Rightarrow> trimmed_text_or outlineTextElement title0)
              in case querySelector descriptionElement [asc ''DetailTxt''] of
                   None \<Rightarrow> (title1, [])
                 | Some detailTextElement \<Rightarrow>
                     (let paragraphs = querySelectorAll detailTextElement [asc ''p'', asc ''span''];
                          textParts = filter (\<lambda>text'. text' \<noteq> [])
                                        (map (\<lambda>p. trim (textContent p)) paragraphs)
                      in if 0 < length textParts
                         then (if title1 = title0 \<and> hd textParts \<noteq> []
                               then take 100 (hd textParts)
                                    @ (if 100 < length (hd textParts) then asc ''...'' else [])
                               else title1,
                               join [32] textParts)
                         else (title1, []))))"

definition parseXMLItem ::
  "element \<Rightarrow> nat \<Rightarrow> jsstring option \<Rightarrow> int option \<Rightarrow> nat \<Rightarrow> gaeb_position option" where
  "parseXMLItem itemElement index parentCategoryId categoryNumber itemNumber =
     (let id' = str_or (getAttribute itemElement (asc ''ID'')) (asc ''item_'' @ nat_to_string (index + 1));
          rNoPart = str_or (getAttribute itemElement (asc ''RNoPart'')) (nat_to_string (index + 1));
          quantity' =
            (case querySelector itemElement [asc ''Qty''] of
               None \<Rightarrow> None
             | Some qtyElement \<Rightarrow> Some (parseFloat (str_or (Some (textContent qtyElement)) (asc ''0''))));
          unit' =
            (case querySelector itemElement [asc ''QU''] of
               None \<Rightarrow> None
             | Some quElement \<Rightarrow> Some (trim (textContent quElement)));
          texts = item_texts itemElement rNoPart;
          hierarchicalPositionNumber =
            (if int_truthy categoryNumber \<and> itemNumber \<noteq> 0
             then int_to_string categoryNumber @ [46] @ nat_to_string itemNumber
             else rNoPart)
      in Some \<lparr>node_id = id',
               positionNumber = Some hierarchicalPositionNumber,
               title = fst texts,
               description = str_or_undefined (snd texts),
               unit = unit',
               quantity = quantity',
               unitPrice = None,
               totalPrice = None,
               level = 1,
               parent = parentCategoryId,
               children = None,
               node_type = TypePosition\<rparr>)"

text \<open>\<^verbatim>\<open>if (p) positions.push(p)\<close>\<close>

definition pushed :: "gaeb_position option \<Rightarrow> gaeb_position list" where
  "pushed p = (case p of None \<Rightarrow> [] | Some q \<Rightarrow> [q])"

text \<open>The nodes that one round of \<^verbatim>\<open>categories.forEach\<close> pushes.\<close>

definition category_nodes :: "nat \<Rightarrow> element \<Rightarrow> gaeb_position list" where
  "category_nodes categoryIndex category =
     (let categoryRNoPart = str_or (getAttribute category (asc ''RNoPart'')) (nat_to_string (categoryIndex + 1));
          categoryNumber = parseInt categoryRNoPart;
          categoryPosition = parseXMLCategory category categoryIndex categoryNumber;
          items = querySelectorAll category [asc ''Item'']
      in pushed categoryPosition
         @ concat (map (\<lambda>(itemIndex, item).
                     pushed (parseXMLItem item itemIndex (map_option node_id categoryPosition)
                               categoryNumber (itemIndex + 1)))
                   (enumerate 0 items)))"

text \<open>
  The body of the \<^verbatim>\<open>try\<close> of \<^verbatim>\<open>parseXMLGAEB\<close>: it throws, or asks for the
  heuristic parser (\<open>Inl\<close>, the early \<^verbatim>\<open>return\<close>), or ends with a header and
  the positions (\<open>Inr\<close>).
\<close>

definition xml_try :: "dom_parser \<Rightarrow> jsstring \<Rightarrow> gaeb_header \<Rightarrow> (unit + gaeb_header \<times> gaeb_position list) outcome" where
  "xml_try domParser content header0 =
     (case domParser content of
        Throws \<Rightarrow> Throws
      | Returns xmlDoc \<Rightarrow>
          if doc_querySelector xmlDoc [asc ''parsererror''] \<noteq> None then Returns (Inl ())
          else
            (let header1 =
                   (case doc_querySelector xmlDoc [asc ''GAEB''] of
                      None \<Rightarrow> header0
                    | Some gaebElement \<Rightarrow>
                        header0\<lparr>header_version :=
                          Some (str_or (getAttribute gaebElement (asc ''xmlns'')) (asc ''Unknown''))\<rparr>);
                 header2 =
                   (case doc_querySelector xmlDoc [asc ''Award''] of
                      None \<Rightarrow> header1
                    | Some awardElement \<Rightarrow>
                        (case (case querySelector awardElement [asc ''Project''] of
                                 Some e \<Rightarrow> Some e
                               | None \<Rightarrow>
                                   (case querySelector awardElement [asc ''Name''] of
                                      Some e \<Rightarrow> Some e
                                    | None \<Rightarrow> querySelector awardElement [asc ''Title''])) of
                           None \<Rightarrow> header1
                         | Some projectElement \<Rightarrow>
                             header1\<lparr>header_project := Some (trim (textContent projectElement))\<rparr>));
                 positions' =
                   (case doc_querySelector xmlDoc [asc ''BoQ''] of
                      None \<Rightarrow> []
                    | Some boqElement \<Rightarrow>
                        concat (map (\<lambda>(categoryIndex, category). category_nodes categoryIndex category)
                                  (enumerate 0 (querySelectorAll boqElement [asc ''BoQCtgy'']))))
             in Returns (Inr (header2, positions'))))"

definition parseXMLGAEB :: "dom_parser \<Rightarrow> jsstring \<Rightarrow> jsstring \<Rightarrow> jsstring \<Rightarrow> gaeb_data outcome" where
  "parseXMLGAEB domParser now content fileName' =
     (case xml_try domParser content (empty_header\<lparr>header_format := Some (detectXMLGAEBFormat content)\<rparr>) of
        Throws \<Rightarrow> Returns (parseTextGAEB now content fileName')
      | Returns (Inl u) \<Rightarrow> Returns (parseTextGAEB now content fileName')
      | Returns (Inr (header', positions')) \<Rightarrow>
          Returns \<lparr>header = header',
                   positions = positions',
                   rawContent = content,
                   fileName = fileName',
                   processedAt = now,
                   totalPositions = length positions'\<rparr>)"

text \<open>\<^verbatim>\<open>GAEBParser.parse\<close>\<close>

definition parse :: "dom_parser \<Rightarrow> jsstring \<Rightarrow> jsstring \<Rightarrow> jsstring \<Rightarrow> gaeb_data outcome" where
  "parse domParser now content fileName' =
     (if startsWith (trim content) (asc ''<?xml'') \<or> js_includes content (asc ''<GAEB'')
      then parseXMLGAEB domParser now content fileName'
      else Returns (parseTextGAEB now content fileName'))"

section \<open>Sheet names of the export\<close>

text \<open>\<^verbatim>\<open>/[\\/:*?"<>|]/g\<close>: the characters that a sheet name must not hold.\<close>

definition unsafe_char :: "nat \<Rightarrow> bool" where
  "unsafe_char c \<longleftrightarrow> c \<in> set [92, 47, 58, 42, 63, 34, 60, 62, 124]"

definition cleanFileName :: "jsstring \<Rightarrow> jsstring" where
  "cleanFileName name = take 31 (map (\<lambda>c. if unsafe_char c then 95 else c) name)"

text \<open>
  The name of the sheet of the document at \<open>index\<close>, of \<open>n\<close> documents
  exported together.
\<close>

definition sheetName :: "nat \<Rightarrow> nat \<Rightarrow> jsstring \<Rightarrow> jsstring" where
  "sheetName n index name =
     (if 1 < n then asc ''File_'' @ nat_to_string (index + 1) @ asc ''_'' @ cleanFileName name
      else cleanFileName name)"

definition sheetNames :: "gaeb_data list \<Rightarrow> jsstring list" where
  "sheetNames gaebFiles =
     map (\<lambda>(index, gaebFile). sheetName (length gaebFiles) index (fileName gaebFile))
       (enumerate 0 gaebFiles)"

section \<open>Notions used in the statements\<close>

text \<open>The positions of the document that a parse returns.\<close>

definition doc_positions :: "gaeb_data outcome \<Rightarrow> gaeb_position list" where
  "doc_positions r = (case r of Throws \<Rightarrow> [] | Returns d \<Rightarrow> positions d)"

text \<open>
  The structured-markup path fails: building the tree throws, or the tree holds
  a \<^verbatim>\<open>parsererror\<close> element.
\<close>

definition structured_path_fails :: "dom_parser \<Rightarrow> jsstring \<Rightarrow> bool" where
  "structured_path_fails domParser content \<longleftrightarrow>
     (case domParser content of
        Throws \<Rightarrow> True
      | Returns xmlDoc \<Rightarrow> doc_querySelector xmlDoc [asc ''parsererror''] \<noteq> None)"

text \<open>
  The invariant of the loop of \<^verbatim>\<open>parseTextGAEB\<close>: the counter is the number of
  nodes, and the node at place \<open>k\<close> is named by its position number, or else
  \<^verbatim>\<open>pos_\<close> and \<open>k + 1\<close>.
\<close>

definition numbered_in_order :: "text_state \<Rightarrow> bool" where
  "numbered_in_order st \<longleftrightarrow>
     positionCounter st = length (ts_positions st) \<and>
     (\<forall>k < length (ts_positions st).
        node_id (ts_positions st ! k) =
          str_or (positionNumber (ts_positions st ! k)) (asc ''pos_'' @ nat_to_string (k + 1)))"

text \<open>A DOM parser that returns one given tree, whatever the markup.\<close>

definition fixed_dom :: "xnode \<Rightarrow> dom_parser" where
  "fixed_dom doc content = Returns doc"

text \<open>Whether a pattern holds the capture group.\<close>

fun has_group :: "regex \<Rightarrow> bool" where
  "has_group (Seq r1 r2) = (has_group r1 \<or> has_group r2)"
| "has_group (Alt r1 r2) = (has_group r1 \<or> has_group r2)"
| "has_group (Star r) = has_group r"
| "has_group (Group r) = True"
| "has_group r = False"

section \<open>Sample inputs\<close>

text \<open>The line \<^verbatim>\<open>1.2 Mauerwerk 20m\<^sup>2 15,50EURO\<close>, EURO standing for the euro sign.\<close>

definition mauerwerk_line :: jsstring where
  "mauerwerk_line = asc ''1.2 Mauerwerk 20m'' @ [SUP2] @ asc '' 15,50'' @ [EURO]"

text \<open>A line with a quantity and a price of zero.\<close>

definition zero_price_line :: jsstring where
  "zero_price_line = asc ''Beton 2,5 m 0,00 EUR''"

text \<open>A line with no position number, whose only unit token is a currency code.\<close>

definition unnumbered_line :: jsstring where
  "unnumbered_line = asc ''Beton 0,00 EUR''"

text \<open>A line whose unit token is a currency code in small letters.\<close>

definition lowercase_currency_line :: jsstring where
  "lowercase_currency_line = asc ''Beton 5,00 eur''"

text \<open>Two lines with the same position number, and two lines with none.\<close>

definition repeated_number_text :: jsstring where
  "repeated_number_text = mauerwerk_line @ [10] @ mauerwerk_line"

definition unnumbered_text :: jsstring where
  "unnumbered_text = unnumbered_line @ [10] @ unnumbered_line"

text \<open>A bill of quantities whose only item has the unit \<^verbatim>\<open>EUR\<close>.\<close>

definition currency_unit_doc :: xnode where
  "currency_unit_doc =
     Elem (asc ''GAEB'') []
       [Elem (asc ''BoQ'') []
          [Elem (asc ''BoQCtgy'') []
             [Elem (asc ''Item'') [] [Elem (asc ''QU'') [] [TextNode (asc ''EUR'')]]]]]"

text \<open>A category numbered \<^verbatim>\<open>A\<close> with one item.\<close>

definition lettered_category_doc :: xnode where
  "lettered_category_doc =
     Elem (asc ''GAEB'') []
       [Elem (asc ''BoQ'') []
          [Elem (asc ''BoQCtgy'') [(asc ''RNoPart'', asc ''A'')]
             [Elem (asc ''Item'') [] []]]]"

text \<open>Two items in two categories, none with an \<^verbatim>\<open>ID\<close> attribute.\<close>

definition two_categories_doc :: xnode where
  "two_categories_doc =
     Elem (asc ''GAEB'') []
       [Elem (asc ''BoQ'') []
          [Elem (asc ''BoQCtgy'') [(asc ''ID'', asc ''c1'')] [Elem (asc ''Item'') [] []],
           Elem (asc ''BoQCtgy'') [(asc ''ID'', asc ''c2'')] [Elem (asc ''Item'') [] []]]]"

text \<open>An item whose quantity is no number, and an item whose quantity is empty.\<close>

definition word_quantity_item :: element where
  "word_quantity_item =
     ([asc ''BoQCtgy'', asc ''BoQ'', asc ''GAEB''],
      Elem (asc ''Item'') [] [Elem (asc ''Qty'') [] [TextNode (asc ''abc'')]])"

definition empty_quantity_item :: element where
  "empty_quantity_item =
     ([asc ''BoQCtgy'', asc ''BoQ'', asc ''GAEB''],
      Elem (asc ''Item'') [] [Elem (asc ''Qty'') [] []])"

definition bad_quantity_doc :: xnode where
  "bad_quantity_doc =
     Elem (asc ''GAEB'') []
       [Elem (asc ''BoQ'') [] [Elem (asc ''BoQCtgy'') [] [snd word_quantity_item, snd empty_quantity_item]]]"

text \<open>What a DOM parser makes of markup with an unclosed tag.\<close>

definition error_doc :: xnode where
  "error_doc = Elem (asc ''parsererror'') [] [TextNode (asc ''error on line 1'')]"

text \<open>A document with a file name of 31 characters, for the export.\<close>

definition long_name_file :: gaeb_data where
  "long_name_file =
     \<lparr>header = empty_header, positions = [], rawContent = [],
      fileName = asc ''Leistungsverzeichnis_Rohbau.x83'', processedAt = [], totalPositions = 0\<rparr>"

section \<open>The limits of the engine\<close>

text \<open>
  What the JavaScript engine adds to the source. A regular-expression test can
  end in a \<^verbatim>\<open>RangeError\<close> when the subject exhausts the backtracking stack of
  the engine, and so can other steps of the body of \<^verbatim>\<open>parsePosition\<close> (a
  match or a replacement, a spread call with too many arguments, a constructed
  pattern that is too large). An engine says for which flag, pattern and subject
  a test gives up, and for which arguments some step of the body of
  \<^verbatim>\<open>parsePosition\<close> throws. The functions above are the parser on an engine
  that never does; the functions below are the parser on any engine.
\<close>

record engine =
  gives_up :: "bool \<Rightarrow> regex \<Rightarrow> jsstring \<Rightarrow> bool"
  body_throws :: "jsstring \<Rightarrow> nat \<Rightarrow> jsstring list \<Rightarrow> nat \<Rightarrow> bool"

text \<open>The seven tests of \<^verbatim>\<open>looksLikePosition\<close> with their \<^verbatim>\<open>i\<close> flags, in order.\<close>

definition looks_tests :: "(bool \<times> regex) list" where
  "looks_tests =
     [(False, looks_numbered), (False, looks_lettered), (True, looks_unit), (True, looks_price),
      (False, looks_heading), (True, looks_quantity), (True, looks_trade)]"

text \<open>
  A chain of tests joined by \<^verbatim>\<open>||\<close>: the tests run from the left until one
  holds, and the chain throws when a test that runs gives up.
\<close>

fun first_test :: "engine \<Rightarrow> (bool \<times> regex) list \<Rightarrow> jsstring \<Rightarrow> bool outcome" where
  "first_test eng [] s = Returns False"
| "first_test eng ((ci, r) # tests) s =
     (if gives_up eng ci r s then Throws
      else if re_test ci r s then Returns True
      else first_test eng tests s)"

definition looksLikePosition_run :: "engine \<Rightarrow> jsstring \<Rightarrow> bool outcome" where
  "looksLikePosition_run eng line =
     (let trimmedLine = trim line
      in if trimmedLine = [] \<or> length trimmedLine < 3 then Returns False
         else if js_includes (toLowerCase trimmedLine) (asc ''header'')
                 \<or> js_includes (toLowerCase trimmedLine) (asc ''projekt'') then Returns False
         else first_test eng looks_tests line)"

text \<open>
  \<^verbatim>\<open>parsePosition\<close> on an engine: the whole body stands in a \<^verbatim>\<open>try\<close>, and
  the \<^verbatim>\<open>catch\<close> returns \<^verbatim>\<open>null\<close>.
\<close>

definition parsePosition_run ::
  "engine \<Rightarrow> jsstring \<Rightarrow> nat \<Rightarrow> jsstring list \<Rightarrow> nat \<Rightarrow> gaeb_position option" where
  "parsePosition_run eng line index allLines currentIndex =
     (if body_throws eng line index allLines currentIndex then None
      else parsePosition line index allLines currentIndex)"

text \<open>
  One round of the loop of \<^verbatim>\<open>parseTextGAEB\<close> on an engine. The two calls of
  \<^verbatim>\<open>looksLikePosition\<close> stand outside any \<^verbatim>\<open>try\<close>; the second runs when the
  section is the positions.
\<close>

definition text_step_run :: "engine \<Rightarrow> jsstring list \<Rightarrow> nat \<Rightarrow> text_state \<Rightarrow> text_state outcome" where
  "text_step_run eng lines i st =
     (let line = lines ! i
      in if line = [] then Returns st
         else
           (case (if currentSection st = InHeader
                  then (case looksLikePosition_run eng line of
                          Throws \<Rightarrow> Throws
                        | Returns looks \<Rightarrow>
                            Returns (st\<lparr>ts_header := scan_header line (ts_header st),
                                        currentSection := (if looks then InPositions else InHeader)\<rparr>))
                  else Returns st) of
              Throws \<Rightarrow> Throws
            | Returns st1 \<Rightarrow>
                if currentSection st1 = InPositions
                then (case looksLikePosition_run eng line of
                        Throws \<Rightarrow> Throws
                      | Returns looks \<Rightarrow>
                          if looks
                          then (case parsePosition_run eng line (positionCounter st1) lines i of
                                  None \<Rightarrow> Returns (st1\<lparr>positionCounter := positionCounter st1 + 1\<rparr>)
                                | Some position \<Rightarrow>
                                    Returns (st1\<lparr>positionCounter := positionCounter st1 + 1,
                                                 ts_positions := ts_positions st1 @ [position]\<rparr>))
                          else Returns st1)
                else Returns st1))"

text \<open>The rounds of a loop, up to the first that throws.\<close>

fun run_steps :: "(nat \<Rightarrow> 's \<Rightarrow> 's outcome) \<Rightarrow> nat list \<Rightarrow> 's \<Rightarrow> 's outcome" where
  "run_steps step [] st = Returns st"
| "run_steps step (i # is) st =
     (case step i st of
        Throws \<Rightarrow> Throws
      | Returns st' \<Rightarrow> run_steps step is st')"

text \<open>The non-empty trimmed lines of a text.\<close>

definition text_lines :: "jsstring \<Rightarrow> jsstring list" where
  "text_lines content = filter (\<lambda>line. line \<noteq> []) (map trim (split 10 content))"

definition parseTextGAEB_run :: "engine \<Rightarrow> jsstring \<Rightarrow> jsstring \<Rightarrow> jsstring \<Rightarrow> gaeb_data outcome" where
  "parseTextGAEB_run eng now content fileName' =
     (let lines = text_lines content;
          start = \<lparr>ts_header = empty_header\<lparr>header_format := Some (detectGAEBFormat content)\<rparr>,
                   currentSection = InHeader,
                   positionCounter = 0,
                   ts_positions = []\<rparr>
      in case run_steps (text_step_run eng lines) [0..<length lines] start of
           Throws \<Rightarrow> Throws
         | Returns final \<Rightarrow>
             Returns \<lparr>header = ts_header final,
                      positions = ts_positions final,
                      rawContent = content,
                      fileName = fileName',
                      processedAt = now,
                      totalPositions = length (ts_positions final)\<rparr>)"

text \<open>
  \<^verbatim>\<open>parseXMLGAEB\<close> on an engine. The fallback after a \<^verbatim>\<open>parsererror\<close> is
  called inside the \<^verbatim>\<open>try\<close>: when it throws, the \<^verbatim>\<open>catch\<close> calls the
  heuristic parser again, outside any \<^verbatim>\<open>try\<close>.
\<close>

definition parseXMLGAEB_run ::
  "engine \<Rightarrow> dom_parser \<Rightarrow> jsstring \<Rightarrow> jsstring \<Rightarrow> jsstring \<Rightarrow> gaeb_data outcome" where
  "parseXMLGAEB_run eng domParser now content fileName' =
     (case xml_try domParser content (empty_header\<lparr>header_format := Some (detectXMLGAEBFormat content)\<rparr>) of
        Throws \<Rightarrow> parseTextGAEB_run eng now content fileName'
      | Returns (Inl u) \<Rightarrow>
          (case parseTextGAEB_run eng now content fileName' of
             Returns d \<Rightarrow> Returns d
           | Throws \<Rightarrow> parseTextGAEB_run eng now content fileName')
      | Returns (Inr (header', positions')) \<Rightarrow>
          Returns \<lparr>header = header',
                   positions = positions',
                   rawContent = content,
                   fileName = fileName',
                   processedAt = now,
                   totalPositions = length positions'\<rparr>)"

definition parse_run ::
  "engine \<Rightarrow> dom_parser \<Rightarrow> jsstring \<Rightarrow> jsstring \<Rightarrow> jsstring \<Rightarrow> gaeb_data outcome" where
  "parse_run eng domParser now content fileName' =
     (if startsWith (trim content) (asc ''<?xml'') \<or> js_includes content (asc ''<GAEB'')
      then parseXMLGAEB_run eng domParser now content fileName'
      else parseTextGAEB_run eng now content fileName')"

text \<open>The heuristic line parser runs: the text is no markup, or the structured-markup path fails.\<close>

definition heuristic_path_runs :: "dom_parser \<Rightarrow> jsstring \<Rightarrow> bool" where
  "heuristic_path_runs domParser content \<longleftrightarrow>
     (if startsWith (trim content) (asc ''<?xml'') \<or> js_includes content (asc ''<GAEB'')
      then structured_path_fails domParser content
      else True)"

text \<open>An engine that gives up on nothing, and an engine with a stack for sixteen units.\<close>

definition quiet_engine :: engine where
  "quiet_engine = \<lparr>gives_up = (\<lambda>ci r s. False), body_throws = (\<lambda>line index allLines i. False)\<rparr>"

definition small_engine :: engine where
  "small_engine =
     \<lparr>gives_up = (\<lambda>ci r s. 16 < length s),
      body_throws = (\<lambda>line index allLines i. 16 < length line)\<rparr>"

text \<open>
  The invariant of the loop on an engine: the nodes were made at growing values
  of the counter, below the counter of the state.
\<close>

definition numbered_by :: "nat list \<Rightarrow> text_state \<Rightarrow> bool" where
  "numbered_by cs st \<longleftrightarrow>
     length cs = length (ts_positions st) \<and> sorted_wrt (<) cs \<and>
     (\<forall>c \<in> set cs. c < positionCounter st) \<and>
     (\<forall>k < length (ts_positions st).
        node_id (ts_positions st ! k) =
          str_or (positionNumber (ts_positions st ! k)) (asc ''pos_'' @ nat_to_string (cs ! k + 1))) \<and>
     (\<forall>p \<in> set (ts_positions st). \<forall>pn. positionNumber p = Some pn \<longrightarrow>
        pn \<noteq> [] \<and> (is_digit (hd pn) \<or> is_upper (hd pn)))"


section \<open>Decimal numerals\<close>

lemma digits_val_snoc: "digits_val (ds @ [c]) = 10 * digits_val ds + digit_val c"
  by (simp add: digits_val_def)

lemma digits_val_nat_to_string: "digits_val (nat_to_string n) = n"
proof (induction n rule: nat_to_string.induct)
  case (1 n)
  show ?case
  proof (cases "n < 10")
    case True
    then show ?thesis
      by (subst nat_to_string.simps) (simp add: digits_val_def digit_val_def)
  next
    case False
    with 1 have "digits_val (nat_to_string (n div 10)) = n div 10" by simp
    with False show ?thesis
      by (subst nat_to_string.simps) (simp add: digits_val_snoc digit_val_def)
  qed
qed

lemma nat_to_string_inject: "nat_to_string m = nat_to_string n \<Longrightarrow> m = n"
  by (metis digits_val_nat_to_string)

lemma nat_to_string_digits: "c \<in> set (nat_to_string n) \<Longrightarrow> is_digit c"
proof (induction n rule: nat_to_string.induct)
  case (1 n)
  show ?case
  proof (cases "n < 10")
    case True
    with "1.prems" show ?thesis
      by (subst (asm) nat_to_string.simps) (simp add: is_digit_def)
  next
    case False
    with "1.prems" have "c \<in> set (nat_to_string (n div 10)) \<or> c = 48 + n mod 10"
      by (subst (asm) nat_to_string.simps) auto
    then show ?thesis
    proof
      assume "c \<in> set (nat_to_string (n div 10))"
      with "1.IH" False show ?thesis by simp
    next
      assume "c = 48 + n mod 10"
      moreover have "n mod 10 < 10" by simp
      ultimately show ?thesis unfolding is_digit_def by linarith
    qed
  qed
qed

section \<open>What the capture group of a pattern holds\<close>

lemma rmatch_keeps_group:
  "\<not> has_group r \<Longrightarrow> (j, g') \<in> set (rmatch ci s r st) \<Longrightarrow> g' = snd st"
proof (induction ci s r st arbitrary: j g' rule: rmatch.induct)
  case (6 ci s r1 r2 i g)
  from "6.prems" obtain k h where mid: "(k, h) \<in> set (rmatch ci s r1 (i, g))"
    and fin: "(j, g') \<in> set (rmatch ci s r2 (k, h))"
    by (auto simp: rmatch.simps(6))
  from "6.prems"(1) have n1: "\<not> has_group r1" and n2: "\<not> has_group r2" by simp_all
  from "6.IH"(1) [OF n1 mid] have "h = g" by simp
  with "6.IH"(2) [OF mid n2 fin] show ?case by simp
next
  case (8 ci s r i g)
  have "set (rmatch ci s (Star r) (i, g)) =
     (\<Union>x \<in> set (rmatch ci s r (i, g)).
        set (case x of (k, h) \<Rightarrow> if i < k \<and> k \<le> length s then rmatch ci s (Star r) (k, h) else []))
     \<union> {(i, g)}"
    by (subst rmatch.simps(8)) simp
  with "8.prems" consider "(j, g') = (i, g)"
    | k h where "(k, h) \<in> set (rmatch ci s r (i, g))" "i < k" "k \<le> length s"
        "(j, g') \<in> set (rmatch ci s (Star r) (k, h))"
    by (fastforce split: if_splits)
  then show ?case
  proof cases
    case 1
    then show ?thesis by simp
  next
    case 2
    from "8.prems"(1) have n: "\<not> has_group r" by simp
    from "8.IH"(1) [OF n 2(1)] have "h = g" by simp
    with "8.IH"(2) [OF 2(1) refl _ "8.prems"(1) 2(4)] 2(2,3) show ?thesis by simp
  qed
qed (auto simp: rmatch.simps split: if_splits)

text \<open>A pattern that starts with a class consumes a unit of the class.\<close>

lemma rmatch_leading_class:
  assumes "(j, g') \<in> set (rmatch ci s (Seq (Cls items) r) (i, g))"
  shows "i < length s \<and> (\<exists>it \<in> set items. in_citem ci (s ! i) it) \<and> i < j"
proof -
  from assms obtain k h where mid: "(k, h) \<in> set (rmatch ci s (Cls items) (i, g))"
    and fin: "(j, g') \<in> set (rmatch ci s r (k, h))"
    by (auto simp: rmatch.simps(6))
  from mid have "i < length s \<and> (\<exists>it \<in> set items. in_citem ci (s ! i) it) \<and> k = Suc i"
    by (auto simp: rmatch.simps(2) split: if_splits)
  with rmatch_advances [OF fin] show ?thesis by auto
qed

lemma rmatch_leading_class2:
  assumes "(j, g') \<in> set (rmatch ci s (Seq (Seq (Cls items) r1) r2) (i, g))"
  shows "i < length s \<and> (\<exists>it \<in> set items. in_citem ci (s ! i) it) \<and> i < j"
proof -
  from assms obtain k h where mid: "(k, h) \<in> set (rmatch ci s (Seq (Cls items) r1) (i, g))"
    and fin: "(j, g') \<in> set (rmatch ci s r2 (k, h))"
    by (auto simp: rmatch.simps(6))
  from rmatch_leading_class [OF mid] rmatch_advances [OF fin] show ?thesis by auto
qed

text \<open>
  The shape of the three patterns for the position number: at the start,
  white space, the group, white space. What the group captures is not empty and
  starts where the body of the group starts.
\<close>

lemma framed_group:
  assumes body: "\<And>j g' i g. (j, g') \<in> set (rmatch ci s X (i, g)) \<Longrightarrow> i < length s \<and> P (s ! i) \<and> i < j"
    and m: "(e, ge) \<in> set (rmatch ci s (Seq Bol (Seq (Star sp) (Seq (Group X) (Plus sp)))) (k, None))"
  shows "\<exists>a b. ge = Some (a, b) \<and> a < b \<and> a < length s \<and> P (s ! a)"
proof -
  from m obtain k1 h1 where m1: "(k1, h1) \<in> set (rmatch ci s Bol (k, None))"
    and r1: "(e, ge) \<in> set (rmatch ci s (Seq (Star sp) (Seq (Group X) (Plus sp))) (k1, h1))"
    by (auto simp: rmatch.simps(6))
  from r1 obtain k2 h2 where m2: "(k2, h2) \<in> set (rmatch ci s (Star sp) (k1, h1))"
    and r2: "(e, ge) \<in> set (rmatch ci s (Seq (Group X) (Plus sp)) (k2, h2))"
    by (auto simp: rmatch.simps(6))
  from r2 obtain k3 h3 where m3: "(k3, h3) \<in> set (rmatch ci s (Group X) (k2, h2))"
    and r3: "(e, ge) \<in> set (rmatch ci s (Plus sp) (k3, h3))"
    by (auto simp: rmatch.simps(6))
  from m3 obtain h where h3: "h3 = Some (k2, k3)" and inner: "(k3, h) \<in> set (rmatch ci s X (k2, h2))"
    by (auto simp: rmatch.simps(9))
  have "\<not> has_group (Plus sp)" by (simp add: Plus_def sp_def)
  from rmatch_keeps_group [OF this r3] h3 have "ge = Some (k2, k3)" by simp
  with body [OF inner] show ?thesis by simp
qed

lemma first_match_member:
  "first_match ci r s ks = Some (a, st) \<Longrightarrow> st \<in> set (rmatch ci s r (a, None))"
proof (induction ks)
  case Nil
  then show ?case by simp
next
  case (Cons k ks)
  then show ?case
    by (cases "rmatch ci s r (k, None)") auto
qed

lemma substring_head:
  assumes "a < b" and "a < length s"
  shows "substring s a b \<noteq> [] \<and> hd (substring s a b) = s ! a"
proof -
  from assms have "drop a s \<noteq> []" by simp
  with assms(1) have "take (b - a) (drop a s) \<noteq> []" by simp
  moreover from assms(1) have "hd (take (b - a) (drop a s)) = hd (drop a s)"
    by (simp add: hd_take)
  moreover from assms(2) have "hd (drop a s) = s ! a" by (simp add: hd_drop_conv_nth)
  ultimately show ?thesis by (simp add: substring_def)
qed

lemma framed_group_match:
  assumes body: "\<And>j g' i g. (j, g') \<in> set (rmatch ci s X (i, g)) \<Longrightarrow> i < length s \<and> P (s ! i) \<and> i < j"
    and m: "re_match ci (Seq Bol (Seq (Star sp) (Seq (Group X) (Plus sp)))) s = Some (whole, v)"
  shows "\<exists>gs. v = Some gs \<and> gs \<noteq> [] \<and> P (hd gs)"
proof -
  from m obtain a e ge where ex: "re_exec ci (Seq Bol (Seq (Star sp) (Seq (Group X) (Plus sp)))) s 0 = Some (a, (e, ge))"
    and v: "v = (case ge of None \<Rightarrow> None | Some (c, d) \<Rightarrow> Some (substring s c d))"
    by (auto simp: re_match_def split: option.splits)
  from ex have "(e, ge) \<in> set (rmatch ci s (Seq Bol (Seq (Star sp) (Seq (Group X) (Plus sp)))) (a, None))"
    unfolding re_exec_def by (rule first_match_member)
  then have "\<exists>c d. ge = Some (c, d) \<and> c < d \<and> c < length s \<and> P (s ! c)"
    by (rule framed_group [where ci = ci and s = s and X = X and P = P, rotated]) (rule body)
  then obtain c d where "ge = Some (c, d)" "c < d" "c < length s" "P (s ! c)" by blast
  with v substring_head [of c d s] show ?thesis by simp
qed

lemma positionNumber_shape:
  assumes "first_group False positionNumberPatterns line = Some pn"
  shows "pn \<noteq> [] \<and> (is_digit (hd pn) \<or> is_upper (hd pn))"
proof -
  let ?P = "\<lambda>c. is_digit c \<or> is_upper c"
  let ?X1 = "Seq (Seq (Cls [CDigit]) (Star dg)) (Seq dotted (Opt (Cls [CRange 65 90, CRange 97 122])))"
  let ?X2 = "Seq (Cls [CRange 65 90]) (Seq (Seq dg (Star dg)) dotted)"
  let ?X3 = "Seq (Cls [CDigit]) (Seq dg (Opt dg))"
  have b1: "\<And>j g' i g. (j, g') \<in> set (rmatch False line ?X1 (i, g)) \<Longrightarrow>
              i < length line \<and> ?P (line ! i) \<and> i < j"
    using rmatch_leading_class2 by fastforce
  have b2: "\<And>j g' i g. (j, g') \<in> set (rmatch False line ?X2 (i, g)) \<Longrightarrow>
              i < length line \<and> ?P (line ! i) \<and> i < j"
    using rmatch_leading_class by (fastforce simp: is_upper_def)
  have b3: "\<And>j g' i g. (j, g') \<in> set (rmatch False line ?X3 (i, g)) \<Longrightarrow>
              i < length line \<and> ?P (line ! i) \<and> i < j"
    using rmatch_leading_class by fastforce
  have pats: "positionNumberPatterns =
      [Seq Bol (Seq (Star sp) (Seq (Group ?X1) (Plus sp))),
       Seq Bol (Seq (Star sp) (Seq (Group ?X2) (Plus sp))),
       Seq Bol (Seq (Star sp) (Seq (Group ?X3) (Plus sp)))]"
    by (simp add: positionNumberPatterns_def Plus_def Rep23_def dg_def)
  from assms consider
      w where "re_match False (Seq Bol (Seq (Star sp) (Seq (Group ?X1) (Plus sp)))) line = Some (w, Some pn)"
    | w where "re_match False (Seq Bol (Seq (Star sp) (Seq (Group ?X2) (Plus sp)))) line = Some (w, Some pn)"
    | w where "re_match False (Seq Bol (Seq (Star sp) (Seq (Group ?X3) (Plus sp)))) line = Some (w, Some pn)"
    unfolding pats by (auto split: option.splits)
  then show ?thesis
  proof cases
    case 1
    have "\<exists>gs. Some pn = Some gs \<and> gs \<noteq> [] \<and> ?P (hd gs)"
      using 1 by (rule framed_group_match [where ci = False and s = line and X = "?X1" and P = ?P, rotated]) (rule b1)
    then show ?thesis by simp
  next
    case 2
    have "\<exists>gs. Some pn = Some gs \<and> gs \<noteq> [] \<and> ?P (hd gs)"
      using 2 by (rule framed_group_match [where ci = False and s = line and X = "?X2" and P = ?P, rotated]) (rule b2)
    then show ?thesis by simp
  next
    case 3
    have "\<exists>gs. Some pn = Some gs \<and> gs \<noteq> [] \<and> ?P (hd gs)"
      using 3 by (rule framed_group_match [where ci = False and s = line and X = "?X3" and P = ?P, rotated]) (rule b3)
    then show ?thesis by simp
  qed
qed

section \<open>The loop of the heuristic line parser\<close>

lemma parsePosition_returns: "\<exists>p. parsePosition line index allLines currentIndex = Some p"
  by (simp add: parsePosition_def Let_def)

lemma parsePosition_id:
  "parsePosition line index allLines currentIndex = Some p \<Longrightarrow>
   node_id p = str_or (positionNumber p) (asc ''pos_'' @ nat_to_string (index + 1))"
  by (auto simp: parsePosition_def Let_def)

lemma parsePosition_unit:
  "parsePosition line index allLines currentIndex = Some p \<Longrightarrow> unit p = Some u \<Longrightarrow>
   \<not> is_currency_token u"
  by (auto simp: parsePosition_def Let_def split: if_splits)

text \<open>A round of the loop leaves the nodes and the counter alone, or adds one node and counts it.\<close>

lemma text_step_cases:
  "(ts_positions (text_step lines i st) = ts_positions st \<and>
    positionCounter (text_step lines i st) = positionCounter st)
   \<or> (\<exists>p. parsePosition (lines ! i) (positionCounter st) lines i = Some p \<and>
        ts_positions (text_step lines i st) = ts_positions st @ [p] \<and>
        positionCounter (text_step lines i st) = positionCounter st + 1)"
proof -
  obtain p where "parsePosition (lines ! i) (positionCounter st) lines i = Some p"
    using parsePosition_returns by blast
  then show ?thesis
    by (simp add: text_step_def Let_def)
qed

lemma text_step_numbered:
  assumes "numbered_in_order st"
  shows "numbered_in_order (text_step lines i st)"
  using text_step_cases [of lines i st]
proof
  assume "ts_positions (text_step lines i st) = ts_positions st \<and>
    positionCounter (text_step lines i st) = positionCounter st"
  with assms show ?thesis by (simp add: numbered_in_order_def)
next
  assume "\<exists>p. parsePosition (lines ! i) (positionCounter st) lines i = Some p \<and>
        ts_positions (text_step lines i st) = ts_positions st @ [p] \<and>
        positionCounter (text_step lines i st) = positionCounter st + 1"
  then obtain p where p: "parsePosition (lines ! i) (positionCounter st) lines i = Some p"
    and ps: "ts_positions (text_step lines i st) = ts_positions st @ [p]"
    and pc: "positionCounter (text_step lines i st) = positionCounter st + 1"
    by blast
  from assms have len: "positionCounter st = length (ts_positions st)"
    by (simp add: numbered_in_order_def)
  from parsePosition_id [OF p] len
  have "node_id p = str_or (positionNumber p) (asc ''pos_'' @ nat_to_string (length (ts_positions st) + 1))"
    by simp
  with assms ps pc len show ?thesis
    by (auto simp: numbered_in_order_def nth_append less_Suc_eq)
qed

lemma fold_text_step_numbered:
  "numbered_in_order st \<Longrightarrow> numbered_in_order (fold (text_step lines) is st)"
  by (induction "is" arbitrary: st) (simp_all add: text_step_numbered)

lemma parseTextGAEB_ids:
  assumes "k < length (positions (parseTextGAEB now content fileName'))"
  shows "node_id (positions (parseTextGAEB now content fileName') ! k) =
         str_or (positionNumber (positions (parseTextGAEB now content fileName') ! k))
           (asc ''pos_'' @ nat_to_string (k + 1))"
proof -
  let ?lines = "filter (\<lambda>line. line \<noteq> []) (map trim (split 10 content))"
  let ?start = "\<lparr>ts_header = empty_header\<lparr>header_format := Some (detectGAEBFormat content)\<rparr>,
                   currentSection = InHeader, positionCounter = 0, ts_positions = []\<rparr>"
  have "numbered_in_order ?start" by (simp add: numbered_in_order_def)
  then have "numbered_in_order (fold (text_step ?lines) [0..<length ?lines] ?start)"
    by (rule fold_text_step_numbered)
  with assms show ?thesis
    by (simp add: parseTextGAEB_def Let_def numbered_in_order_def)
qed

lemma parsePosition_number_shape:
  assumes "parsePosition line index allLines currentIndex = Some p"
    and "positionNumber p = Some pn"
  shows "pn \<noteq> [] \<and> (is_digit (hd pn) \<or> is_upper (hd pn))"
proof -
  from assms have "first_group False positionNumberPatterns line = Some pn"
    by (auto simp: parsePosition_def Let_def)
  then show ?thesis by (rule positionNumber_shape)
qed

text \<open>A property of every node that \<^verbatim>\<open>parsePosition\<close> returns holds of every node of the loop.\<close>

lemma fold_text_step_all:
  assumes each: "\<And>line index allLines currentIndex p.
                   parsePosition line index allLines currentIndex = Some p \<Longrightarrow> Q p"
  shows "\<forall>p \<in> set (ts_positions st). Q p \<Longrightarrow>
         \<forall>p \<in> set (ts_positions (fold (text_step lines) is st)). Q p"
proof (induction "is" arbitrary: st)
  case Nil
  then show ?case by simp
next
  case (Cons i "is")
  have "\<forall>p \<in> set (ts_positions (text_step lines i st)). Q p"
    using text_step_cases [of lines i st] Cons.prems each by auto
  from Cons.IH [OF this] show ?case by simp
qed

lemma parseTextGAEB_all:
  assumes each: "\<And>line index allLines currentIndex p.
                   parsePosition line index allLines currentIndex = Some p \<Longrightarrow> Q p"
    and mem: "p \<in> set (positions (parseTextGAEB now content fileName'))"
  shows "Q p"
proof -
  let ?lines = "filter (\<lambda>line. line \<noteq> []) (map trim (split 10 content))"
  let ?start = "\<lparr>ts_header = empty_header\<lparr>header_format := Some (detectGAEBFormat content)\<rparr>,
                   currentSection = InHeader, positionCounter = 0, ts_positions = []\<rparr>"
  have "\<forall>p \<in> set (ts_positions ?start). Q p" by simp
  then have "\<forall>p \<in> set (ts_positions (fold (text_step ?lines) [0..<length ?lines] ?start)). Q p"
    by (rule fold_text_step_all [where Q = Q, rotated]) (rule each)
  with mem show ?thesis by (simp add: parseTextGAEB_def Let_def)
qed

lemma parseTextGAEB_number_shape:
  assumes "k < length (positions (parseTextGAEB now content fileName'))"
    and "positionNumber (positions (parseTextGAEB now content fileName') ! k) = Some pn"
  shows "pn \<noteq> [] \<and> (is_digit (hd pn) \<or> is_upper (hd pn))"
proof -
  let ?Q = "\<lambda>p. \<forall>pn. positionNumber p = Some pn \<longrightarrow> pn \<noteq> [] \<and> (is_digit (hd pn) \<or> is_upper (hd pn))"
  from assms(1) have "positions (parseTextGAEB now content fileName') ! k
                      \<in> set (positions (parseTextGAEB now content fileName'))"
    by simp
  then have "?Q (positions (parseTextGAEB now content fileName') ! k)"
    by (rule parseTextGAEB_all [where Q = ?Q, rotated]) (use parsePosition_number_shape in blast)
  with assms(2) show ?thesis by simp
qed

text \<open>The id of a node of the heuristic path, by whether a position number was found.\<close>

lemma parseTextGAEB_id_cases:
  assumes "k < length (positions (parseTextGAEB now content fileName'))"
  shows "node_id (positions (parseTextGAEB now content fileName') ! k) =
           (case positionNumber (positions (parseTextGAEB now content fileName') ! k) of
              None \<Rightarrow> asc ''pos_'' @ nat_to_string (k + 1)
            | Some pn \<Rightarrow> pn)"
proof (cases "positionNumber (positions (parseTextGAEB now content fileName') ! k)")
  case None
  with parseTextGAEB_ids [OF assms] show ?thesis by (simp add: str_or_def)
next
  case (Some pn)
  with parseTextGAEB_number_shape [OF assms Some] parseTextGAEB_ids [OF assms]
  show ?thesis by (simp add: str_or_def)
qed

lemma parseTextGAEB_total:
  "totalPositions (parseTextGAEB now content fileName') = length (positions (parseTextGAEB now content fileName'))"
  by (simp add: parseTextGAEB_def Let_def)

section \<open>The structured-markup path\<close>

lemma parseXMLGAEB_fallback:
  "structured_path_fails domParser content \<Longrightarrow>
   parseXMLGAEB domParser now content fileName' = Returns (parseTextGAEB now content fileName')"
  by (auto simp: structured_path_fails_def parseXMLGAEB_def xml_try_def split: outcome.splits)

lemma parseXMLGAEB_returns: "\<exists>d. parseXMLGAEB domParser now content fileName' = Returns d"
  by (simp add: parseXMLGAEB_def split: outcome.splits sum.splits prod.splits)

lemma parseXMLGAEB_total:
  "parseXMLGAEB domParser now content fileName' = Returns d \<Longrightarrow> totalPositions d = length (positions d)"
  by (auto simp: parseXMLGAEB_def parseTextGAEB_total split: outcome.splits sum.splits prod.splits)

section \<open>Evaluation of the sample inputs\<close>

lemmas ev_str = asc_def SUP2_def SUP3_def EURO_def AUML_def OUML_def UUML_def auml_def
  is_space_def is_digit_def is_upper_def is_lower_def is_word_def word_at_def
  trim_def trimStart_def trimEnd_def canon_def lower_unit_def toLowerCase_def
  str_truthy_def str_or_def str_or_undefined_def num_truthy_def

lemmas ev_re = rmatch.simps Plus_def Opt_def Rep23_def re_exec_def re_test_def re_match_def
  match_g_def all_matches.simps replace_g_def replace_first_def substring_def
  dg_def sp_def sep_def dotted_def capital_def units_short_def units_all_def currency_tokens_def

lemmas ev_num = parseFloat_def read_decimal_def read_exponent_def scale10_def digits_val_def
  digit_val_def parseInt_def hex_val_def int_to_string_def int_truthy_def

lemmas ev_parse = detect_type_def derive_title_def derive_level_def
  derive_pricing_def clean_number_def is_currency_token_def Math_max_def
  leading_number_def pricePattern_def quantityPattern_def numeric_prefix_def section_title_def
  summary_line_def

lemmas ev_looks = looksLikePosition_def looks_numbered_def looks_lettered_def looks_unit_def
  looks_price_def looks_heading_def looks_quantity_def looks_trade_def

lemmas ev_dom = querySelector_def querySelectorAll_def doc_querySelector_def selects_def
  textContent_def trimmed_text_or_def

lemmas ev_xml = parse_def parseXMLGAEB_def xml_try_def category_nodes_def parseXMLCategory_def
  parseXMLItem_def item_texts_def pushed_def enumerate_eq_zip detectXMLGAEBFormat_def
  empty_header_def doc_positions_def fixed_dom_def nat_to_string.simps

subsection \<open>The line of masonry\<close>

lemma mauerwerk_units:
  "mauerwerk_line =
     [49, 46, 50, 32, 77, 97, 117, 101, 114, 119, 101, 114, 107, 32, 50, 48, 109, 178, 32,
      49, 53, 44, 53, 48, 8364]"
  by (simp add: mauerwerk_line_def ev_str)

lemma mauerwerk_number: "first_group False positionNumberPatterns mauerwerk_line = Some (asc ''1.2'')"
  by (simp add: mauerwerk_units positionNumberPatterns_def ev_str ev_re)

lemma mauerwerk_unit: "re_match True unitPattern mauerwerk_line = None"
  by (simp add: mauerwerk_units unitPattern_def ev_str ev_re)

lemma mauerwerk_currency: "first_group True currencyPatterns mauerwerk_line = Some (asc ''15,50'')"
  by (simp add: mauerwerk_units currencyPatterns_def ev_str ev_re)

lemma mauerwerk_numbers: "first_numbers numberPatterns mauerwerk_line = [asc ''1.2'', asc ''15,50'']"
  by (simp add: mauerwerk_units numberPatterns_def ev_str ev_re)

lemma mauerwerk_looks: "looksLikePosition mauerwerk_line"
  by (simp add: mauerwerk_units ev_looks ev_str ev_re)

lemma mauerwerk_header: "scan_header mauerwerk_line h = h"
  by (simp add: mauerwerk_units scan_header_def ev_str)

lemma mauerwerk_node:
  assumes "lookahead_description allLines currentIndex = []"
  shows "parsePosition mauerwerk_line index allLines currentIndex =
     Some \<lparr>node_id = asc ''1.2'', positionNumber = Some (asc ''1.2''),
       title = asc ''Mauerwerk 20m'' @ [SUP2],
       description = None, unit = None, quantity = Some (Fin (6 / 5)),
       unitPrice = Some (Fin (31 / 2)), totalPrice = Some (Fin (31 / 2)),
       level = 1, parent = None, children = None, node_type = TypePosition\<rparr>"
  unfolding parsePosition_def mauerwerk_number mauerwerk_unit mauerwerk_currency mauerwerk_numbers assms
  by (simp add: mauerwerk_units ev_parse ev_num ev_str ev_re Let_def)

lemma mauerwerk_lines:
  "filter (\<lambda>line. line \<noteq> []) (map trim (split 10 mauerwerk_line)) = [mauerwerk_line]"
  by (simp add: mauerwerk_units ev_str)

lemma mauerwerk_doc:
  "positions (parseTextGAEB now mauerwerk_line fileName') =
     [\<lparr>node_id = asc ''1.2'', positionNumber = Some (asc ''1.2''),
       title = asc ''Mauerwerk 20m'' @ [SUP2],
       description = None, unit = None, quantity = Some (Fin (6 / 5)),
       unitPrice = Some (Fin (31 / 2)), totalPrice = Some (Fin (31 / 2)),
       level = 1, parent = None, children = None, node_type = TypePosition\<rparr>]"
proof -
  have ne: "mauerwerk_line \<noteq> []" by (simp add: mauerwerk_units)
  have la: "lookahead_description [mauerwerk_line] 0 = []"
    by (simp add: lookahead_description_def)
  show ?thesis
    unfolding parseTextGAEB_def mauerwerk_lines
    by (simp add: text_step_def ne mauerwerk_looks mauerwerk_header mauerwerk_node [OF la] Let_def)
qed

lemma repeated_number_lines:
  "filter (\<lambda>line. line \<noteq> []) (map trim (split 10 repeated_number_text))
   = [mauerwerk_line, mauerwerk_line]"
  by (simp add: repeated_number_text_def mauerwerk_units ev_str)

lemma repeated_number_doc:
  "map node_id (positions (parseTextGAEB now repeated_number_text fileName')) = [asc ''1.2'', asc ''1.2'']"
proof -
  have ne: "mauerwerk_line \<noteq> []" by (simp add: mauerwerk_units)
  have la0: "lookahead_description [mauerwerk_line, mauerwerk_line] 0 = []"
    by (simp add: lookahead_description_def mauerwerk_looks ne)
  have la1: "lookahead_description [mauerwerk_line, mauerwerk_line] (Suc 0) = []"
    by (simp add: lookahead_description_def)
  have up: "[0..<2] = [0, Suc 0]" by (simp add: upt_rec)
  show ?thesis
    unfolding parseTextGAEB_def repeated_number_lines
    by (simp add: up text_step_def ne mauerwerk_looks mauerwerk_header
        mauerwerk_node [OF la0] mauerwerk_node [OF la1] Let_def)
qed

subsection \<open>The line with a price of zero\<close>

lemma zero_price_units:
  "zero_price_line =
     [66, 101, 116, 111, 110, 32, 50, 44, 53, 32, 109, 32, 48, 44, 48, 48, 32, 69, 85, 82]"
  by (simp add: zero_price_line_def ev_str)

lemma zero_price_number: "first_group False positionNumberPatterns zero_price_line = None"
  by (simp add: zero_price_units positionNumberPatterns_def ev_str ev_re)

lemma zero_price_unit: "re_match True unitPattern zero_price_line = Some (asc ''m'', None)"
  by (simp add: zero_price_units unitPattern_def ev_str ev_re)

lemma zero_price_currency: "first_group True currencyPatterns zero_price_line = Some (asc ''0,00'')"
  by (simp add: zero_price_units currencyPatterns_def ev_str ev_re)

lemma zero_price_numbers: "first_numbers numberPatterns zero_price_line = [asc ''2,5'', asc ''0,00'']"
  by (simp add: zero_price_units numberPatterns_def ev_str ev_re)

lemma zero_price_looks: "looksLikePosition zero_price_line"
  by (simp add: zero_price_units ev_looks ev_str ev_re)

lemma zero_price_header: "scan_header zero_price_line h = h"
  by (simp add: zero_price_units scan_header_def ev_str)

lemma zero_price_node:
  "map_option (\<lambda>p. (node_type p, quantity p, unitPrice p, totalPrice p))
     (parsePosition zero_price_line index allLines currentIndex)
   = Some (TypePosition, Some (Fin (5 / 2)), None, None)"
  unfolding parsePosition_def zero_price_number zero_price_unit zero_price_currency zero_price_numbers
  by (simp add: zero_price_units ev_parse ev_num ev_str ev_re Let_def)

lemma zero_price_lines:
  "filter (\<lambda>line. line \<noteq> []) (map trim (split 10 zero_price_line)) = [zero_price_line]"
  by (simp add: zero_price_units ev_str)

lemma zero_price_doc:
  "map (\<lambda>p. (node_type p, quantity p, unitPrice p, totalPrice p))
     (positions (parseTextGAEB now zero_price_line fileName'))
   = [(TypePosition, Some (Fin (5 / 2)), None, None)]"
proof -
  have ne: "zero_price_line \<noteq> []" by (simp add: zero_price_units)
  obtain p where p: "parsePosition zero_price_line 0 [zero_price_line] 0 = Some p"
    using parsePosition_returns by blast
  with zero_price_node [of 0 "[zero_price_line]" 0]
  have "(node_type p, quantity p, unitPrice p, totalPrice p) = (TypePosition, Some (Fin (5 / 2)), None, None)"
    by simp
  then show ?thesis
    unfolding parseTextGAEB_def zero_price_lines
    by (simp add: text_step_def ne zero_price_looks zero_price_header p Let_def)
qed

subsection \<open>The lines with no position number\<close>

lemma unnumbered_units:
  "unnumbered_line = [66, 101, 116, 111, 110, 32, 48, 44, 48, 48, 32, 69, 85, 82]"
  by (simp add: unnumbered_line_def ev_str)

lemma unnumbered_number: "first_group False positionNumberPatterns unnumbered_line = None"
  by (simp add: unnumbered_units positionNumberPatterns_def ev_str ev_re)

lemma unnumbered_unit: "re_match True unitPattern unnumbered_line = Some (asc ''EUR'', None)"
  by (simp add: unnumbered_units unitPattern_def ev_str ev_re)

lemma unnumbered_looks: "looksLikePosition unnumbered_line"
  by (simp add: unnumbered_units ev_looks ev_str ev_re)

lemma unnumbered_header: "scan_header unnumbered_line h = h"
  by (simp add: unnumbered_units scan_header_def ev_str)

lemma unnumbered_node:
  "map_option (\<lambda>p. (node_id p, positionNumber p, unit p))
     (parsePosition unnumbered_line index allLines currentIndex)
   = Some (asc ''pos_'' @ nat_to_string (index + 1), None, None)"
  unfolding parsePosition_def unnumbered_number unnumbered_unit
  by (simp add: Let_def str_or_def str_truthy_def is_currency_token_def)

lemma unnumbered_lines:
  "filter (\<lambda>line. line \<noteq> []) (map trim (split 10 unnumbered_text))
   = [unnumbered_line, unnumbered_line]"
  by (simp add: unnumbered_text_def unnumbered_units ev_str)

lemma unnumbered_doc:
  "map (\<lambda>p. (node_id p, positionNumber p, unit p))
     (positions (parseTextGAEB now unnumbered_text fileName'))
   = [(asc ''pos_1'', None, None), (asc ''pos_2'', None, None)]"
proof -
  have ne: "unnumbered_line \<noteq> []" by (simp add: unnumbered_units)
  have up: "[0..<2] = [0, Suc 0]" by (simp add: upt_rec)
  obtain p where p: "parsePosition unnumbered_line 0 [unnumbered_line, unnumbered_line] 0 = Some p"
    using parsePosition_returns by blast
  obtain q where q: "parsePosition unnumbered_line (Suc 0) [unnumbered_line, unnumbered_line] (Suc 0) = Some q"
    using parsePosition_returns by blast
  from unnumbered_node [of 0 "[unnumbered_line, unnumbered_line]" 0] p
  have pv: "(node_id p, positionNumber p, unit p) = (asc ''pos_1'', None, None)"
    by (simp add: nat_to_string.simps asc_def)
  from unnumbered_node [of "Suc 0" "[unnumbered_line, unnumbered_line]" "Suc 0"] q
  have qv: "(node_id q, positionNumber q, unit q) = (asc ''pos_2'', None, None)"
    by (simp add: nat_to_string.simps asc_def)
  show ?thesis
    unfolding parseTextGAEB_def unnumbered_lines
    using pv qv
    by (simp add: up text_step_def ne unnumbered_looks unnumbered_header p q Let_def)
qed

subsection \<open>The line with a currency code in small letters\<close>

lemma lowercase_currency_units:
  "lowercase_currency_line = [66, 101, 116, 111, 110, 32, 53, 44, 48, 48, 32, 101, 117, 114]"
  by (simp add: lowercase_currency_line_def ev_str)

lemma lowercase_currency_number: "first_group False positionNumberPatterns lowercase_currency_line = None"
  by (simp add: lowercase_currency_units positionNumberPatterns_def ev_str ev_re)

lemma lowercase_currency_unit: "re_match True unitPattern lowercase_currency_line = Some (asc ''eur'', None)"
  by (simp add: lowercase_currency_units unitPattern_def ev_str ev_re)

lemma lowercase_currency_amount: "first_group True currencyPatterns lowercase_currency_line = Some (asc ''5,00'')"
  by (simp add: lowercase_currency_units currencyPatterns_def ev_str ev_re)

lemma lowercase_currency_looks: "looksLikePosition lowercase_currency_line"
  by (simp add: lowercase_currency_units ev_looks ev_str ev_re)

lemma lowercase_currency_header: "scan_header lowercase_currency_line h = h"
  by (simp add: lowercase_currency_units scan_header_def ev_str)

lemma lowercase_currency_node:
  "map_option (\<lambda>p. (node_type p, unit p))
     (parsePosition lowercase_currency_line index allLines currentIndex)
   = Some (TypePosition, Some (asc ''eur''))"
  unfolding parsePosition_def lowercase_currency_number lowercase_currency_unit lowercase_currency_amount
  by (simp add: lowercase_currency_units detect_type_def section_title_def is_currency_token_def
      clean_number_def ev_num ev_str ev_re Let_def)

lemma lowercase_currency_lines:
  "filter (\<lambda>line. line \<noteq> []) (map trim (split 10 lowercase_currency_line)) = [lowercase_currency_line]"
  by (simp add: lowercase_currency_units ev_str)

lemma lowercase_currency_doc:
  "map (\<lambda>p. (node_type p, unit p)) (positions (parseTextGAEB now lowercase_currency_line fileName'))
   = [(TypePosition, Some (asc ''eur''))]"
proof -
  have ne: "lowercase_currency_line \<noteq> []" by (simp add: lowercase_currency_units)
  obtain p where p: "parsePosition lowercase_currency_line 0 [lowercase_currency_line] 0 = Some p"
    using parsePosition_returns by blast
  with lowercase_currency_node [of 0 "[lowercase_currency_line]" 0]
  have "(node_type p, unit p) = (TypePosition, Some (asc ''eur''))"
    by simp
  then show ?thesis
    unfolding parseTextGAEB_def lowercase_currency_lines
    by (simp add: text_step_def ne lowercase_currency_looks lowercase_currency_header p Let_def)
qed

subsection \<open>The documents of the structured-markup path\<close>

lemma currency_unit_positions:
  "map (\<lambda>p. (node_type p, unit p))
     (doc_positions (parse (fixed_dom currency_unit_doc) now (asc ''<GAEB>'') fileName'))
   = [(TypeTitle, None), (TypePosition, Some (asc ''EUR''))]"
  by (simp add: currency_unit_doc_def ev_xml ev_dom ev_num ev_str Let_def)

lemma lettered_category_positions:
  "map positionNumber
     (doc_positions (parse (fixed_dom lettered_category_doc) now (asc ''<GAEB>'') fileName'))
   = [Some (asc ''NaN''), Some (asc ''1'')]"
  by (simp add: lettered_category_doc_def ev_xml ev_dom ev_num ev_str Let_def)

lemma two_categories_positions:
  "map node_id
     (doc_positions (parse (fixed_dom two_categories_doc) now (asc ''<GAEB>'') fileName'))
   = [asc ''c1'', asc ''item_1'', asc ''c2'', asc ''item_1'']"
  by (simp add: two_categories_doc_def ev_xml ev_dom ev_num ev_str Let_def)

lemma bad_quantity_positions:
  "map (\<lambda>p. (node_type p, quantity p))
     (doc_positions (parse (fixed_dom bad_quantity_doc) now (asc ''<GAEB>'') fileName'))
   = [(TypeTitle, None), (TypePosition, Some NaN), (TypePosition, Some (Fin 0))]"
  by (simp add: bad_quantity_doc_def word_quantity_item_def empty_quantity_item_def
      ev_xml ev_dom ev_num ev_str Let_def)

text \<open>The unit of an item is the trimmed text of its \<^verbatim>\<open>QU\<close> element, whatever it reads.\<close>

lemma item_unit_is_QU_text:
  "\<exists>p. parseXMLItem itemElement index parentCategoryId categoryNumber itemNumber = Some p \<and>
       node_type p = TypePosition \<and>
       unit p = map_option (\<lambda>quElement. trim (textContent quElement))
                  (querySelector itemElement [asc ''QU''])"
  by (simp add: parseXMLItem_def Let_def split: option.splits)

lemma parseFloat_zero: "parseFloat (asc ''0'') = Fin 0"
  by (simp add: ev_num ev_str)

lemma parseFloat_abc: "parseFloat (asc ''abc'') = NaN"
  by (simp add: ev_num ev_str)

lemma word_quantity_element:
  "querySelector word_quantity_item [asc ''Qty'']
   = Some ([asc ''Item'', asc ''BoQCtgy'', asc ''BoQ'', asc ''GAEB''],
           Elem (asc ''Qty'') [] [TextNode (asc ''abc'')])"
  by (simp add: word_quantity_item_def ev_dom ev_str)

text \<open>
  A category whose \<^verbatim>\<open>RNoPart\<close> is 3 numbers its two items 3.1 and 3.2,
  whatever attributes the items have.
\<close>

lemma category_three:
  assumes "getAttribute category (asc ''RNoPart'') = Some (asc ''3'')"
    and "querySelectorAll category [asc ''Item''] = [item1, item2]"
  shows "map positionNumber (category_nodes categoryIndex category)
         = [Some (asc ''3''), Some (asc ''3.1''), Some (asc ''3.2'')]"
  using assms
  by (simp add: category_nodes_def parseXMLCategory_def parseXMLItem_def pushed_def
      enumerate_eq_zip Let_def nat_to_string.simps ev_num ev_str)

subsection \<open>Sheet names\<close>

lemma long_name_sheets:
  "sheetNames [long_name_file, long_name_file]
   = [asc ''File_1_Leistungsverzeichnis_Rohbau.x83'', asc ''File_2_Leistungsverzeichnis_Rohbau.x83'']"
  by (simp add: sheetNames_def sheetName_def cleanFileName_def unsafe_char_def long_name_file_def
      enumerate_eq_zip nat_to_string.simps upt_rec ev_str)

section \<open>The parser on an engine\<close>

text \<open>On an engine that gives up on nothing, the parser is the one of the sections above.\<close>

lemma first_test_quiet:
  "\<forall>ci r. \<not> gives_up eng ci r s \<Longrightarrow>
   first_test eng tests s = Returns (\<exists>t \<in> set tests. re_test (fst t) (snd t) s)"
  by (induction tests) auto

lemma looksLikePosition_run_quiet:
  assumes "\<forall>ci r. \<not> gives_up eng ci r line"
  shows "looksLikePosition_run eng line = Returns (looksLikePosition line)"
proof -
  have "first_test eng looks_tests line
        = Returns (\<exists>t \<in> set looks_tests. re_test (fst t) (snd t) line)"
    by (rule first_test_quiet [OF assms])
  also have "(\<exists>t \<in> set looks_tests. re_test (fst t) (snd t) line)
             = (re_test False looks_numbered line \<or> re_test False looks_lettered line
                \<or> re_test True looks_unit line \<or> re_test True looks_price line
                \<or> re_test False looks_heading line \<or> re_test True looks_quantity line
                \<or> re_test True looks_trade line)"
    by (simp add: looks_tests_def)
  finally show ?thesis
    unfolding looksLikePosition_run_def looksLikePosition_def Let_def by simp
qed

lemma text_step_run_quiet:
  assumes "\<forall>ci r s. \<not> gives_up eng ci r s" and "\<forall>line index allLines i. \<not> body_throws eng line index allLines i"
  shows "text_step_run eng lines i st = Returns (text_step lines i st)"
proof -
  from assms(1) have l: "\<And>line. looksLikePosition_run eng line = Returns (looksLikePosition line)"
    by (simp add: looksLikePosition_run_quiet)
  from assms(2) have p: "\<And>line index allLines i. parsePosition_run eng line index allLines i = parsePosition line index allLines i"
    by (simp add: parsePosition_run_def)
  show ?thesis
    by (simp add: text_step_run_def text_step_def Let_def l p split: option.splits)
qed

lemma run_steps_quiet:
  "(\<And>i st. step i st = Returns (f i st)) \<Longrightarrow> run_steps step is st = Returns (fold f is st)"
  by (induction "is" arbitrary: st) simp_all

lemma parseTextGAEB_run_quiet:
  assumes "\<forall>ci r s. \<not> gives_up eng ci r s" and "\<forall>line index allLines i. \<not> body_throws eng line index allLines i"
  shows "parseTextGAEB_run eng now content fileName' = Returns (parseTextGAEB now content fileName')"
proof -
  have "run_steps (text_step_run eng (text_lines content)) [0..<length (text_lines content)] st
        = Returns (fold (text_step (text_lines content)) [0..<length (text_lines content)] st)" for st
    by (rule run_steps_quiet) (rule text_step_run_quiet [OF assms])
  then show ?thesis
    by (simp add: parseTextGAEB_run_def parseTextGAEB_def text_lines_def Let_def)
qed

lemma parse_run_quiet:
  assumes "\<forall>ci r s. \<not> gives_up eng ci r s" and "\<forall>line index allLines i. \<not> body_throws eng line index allLines i"
  shows "parse_run eng domParser now content fileName' = parse domParser now content fileName'"
  by (simp add: parse_run_def parse_def parseXMLGAEB_run_def parseXMLGAEB_def
      parseTextGAEB_run_quiet [OF assms] split: outcome.splits sum.splits)

text \<open>A round of the loop throws exactly when the test of its line does.\<close>

lemma text_step_run_throws:
  assumes "lines ! i \<noteq> []"
  shows "text_step_run eng lines i st = Throws \<longleftrightarrow> looksLikePosition_run eng (lines ! i) = Throws"
proof (cases "looksLikePosition_run eng (lines ! i)")
  case Throws
  with assms show ?thesis
    by (cases "currentSection st") (simp_all add: text_step_run_def Let_def)
next
  case (Returns looks)
  with assms show ?thesis
    by (cases "currentSection st") (simp_all add: text_step_run_def Let_def split: option.splits)
qed

lemma run_steps_throws:
  assumes "\<And>i st. i \<in> set is \<Longrightarrow> step i st = Throws \<longleftrightarrow> T i"
  shows "run_steps step is st = Throws \<longleftrightarrow> (\<exists>i \<in> set is. T i)"
  using assms
proof (induction "is" arbitrary: st)
  case Nil
  then show ?case by simp
next
  case (Cons i "is")
  show ?case
  proof (cases "step i st")
    case Throws
    with Cons.prems [of i st] show ?thesis by simp
  next
    case (Returns st')
    with Cons.prems [of i st] have "\<not> T i" by simp
    moreover have "run_steps step is st' = Throws \<longleftrightarrow> (\<exists>i \<in> set is. T i)"
      by (rule Cons.IH) (simp add: Cons.prems)
    ultimately show ?thesis using Returns by simp
  qed
qed

lemma text_lines_nonempty: "i < length (text_lines content) \<Longrightarrow> text_lines content ! i \<noteq> []"
proof -
  assume "i < length (text_lines content)"
  then have "text_lines content ! i \<in> set (text_lines content)" by simp
  then show ?thesis by (simp add: text_lines_def)
qed

lemma parseTextGAEB_run_throws:
  "parseTextGAEB_run eng now content fileName' = Throws
   \<longleftrightarrow> (\<exists>line \<in> set (text_lines content). looksLikePosition_run eng line = Throws)"
proof -
  let ?lines = "text_lines content"
  let ?start = "\<lparr>ts_header = empty_header\<lparr>header_format := Some (detectGAEBFormat content)\<rparr>,
                   currentSection = InHeader, positionCounter = 0, ts_positions = []\<rparr>"
  have "run_steps (text_step_run eng ?lines) [0..<length ?lines] ?start = Throws
        \<longleftrightarrow> (\<exists>i \<in> set [0..<length ?lines]. looksLikePosition_run eng (?lines ! i) = Throws)"
    by (rule run_steps_throws) (simp add: text_step_run_throws text_lines_nonempty)
  also have "(\<exists>i \<in> set [0..<length ?lines]. looksLikePosition_run eng (?lines ! i) = Throws)
             \<longleftrightarrow> (\<exists>line \<in> set ?lines. looksLikePosition_run eng line = Throws)"
  proof
    assume "\<exists>i \<in> set [0..<length ?lines]. looksLikePosition_run eng (?lines ! i) = Throws"
    then obtain i where "i < length ?lines" "looksLikePosition_run eng (?lines ! i) = Throws"
      by auto
    moreover from this have "?lines ! i \<in> set ?lines" by simp
    ultimately show "\<exists>line \<in> set ?lines. looksLikePosition_run eng line = Throws" by blast
  next
    assume "\<exists>line \<in> set ?lines. looksLikePosition_run eng line = Throws"
    then obtain line where "line \<in> set ?lines" "looksLikePosition_run eng line = Throws"
      by blast
    then obtain i where "i < length ?lines" "looksLikePosition_run eng (?lines ! i) = Throws"
      by (auto simp: in_set_conv_nth)
    moreover from this have "i \<in> set [0..<length ?lines]" by simp
    ultimately show "\<exists>i \<in> set [0..<length ?lines]. looksLikePosition_run eng (?lines ! i) = Throws"
      by blast
  qed
  finally have key: "run_steps (text_step_run eng ?lines) [0..<length ?lines] ?start = Throws
        \<longleftrightarrow> (\<exists>line \<in> set ?lines. looksLikePosition_run eng line = Throws)" .
  show ?thesis
  proof (cases "run_steps (text_step_run eng ?lines) [0..<length ?lines] ?start")
    case Throws
    with key show ?thesis by (simp add: parseTextGAEB_run_def Let_def)
  next
    case (Returns final)
    with key show ?thesis by (simp add: parseTextGAEB_run_def Let_def)
  qed
qed

lemma xml_try_fails:
  "structured_path_fails domParser content
   \<longleftrightarrow> xml_try domParser content h = Throws \<or> xml_try domParser content h = Returns (Inl ())"
  by (auto simp: structured_path_fails_def xml_try_def Let_def split: outcome.splits if_splits)

lemma parseXMLGAEB_run_throws:
  "parseXMLGAEB_run eng domParser now content fileName' = Throws
   \<longleftrightarrow> structured_path_fails domParser content
       \<and> parseTextGAEB_run eng now content fileName' = Throws"
proof (cases "xml_try domParser content (empty_header\<lparr>header_format := Some (detectXMLGAEBFormat content)\<rparr>)")
  case Throws
  with xml_try_fails [of domParser content "empty_header\<lparr>header_format := Some (detectXMLGAEBFormat content)\<rparr>"]
  show ?thesis
    by (simp add: parseXMLGAEB_run_def)
next
  case (Returns v)
  show ?thesis
  proof (cases v)
    case (Inl u)
    with Returns xml_try_fails [of domParser content "empty_header\<lparr>header_format := Some (detectXMLGAEBFormat content)\<rparr>"]
    show ?thesis
      by (simp add: parseXMLGAEB_run_def split: outcome.splits)
  next
    case (Inr hp)
    with Returns xml_try_fails [of domParser content "empty_header\<lparr>header_format := Some (detectXMLGAEBFormat content)\<rparr>"]
    show ?thesis
      by (simp add: parseXMLGAEB_run_def split: prod.splits)
  qed
qed

lemma parse_run_throws:
  "parse_run eng domParser now content fileName' = Throws
   \<longleftrightarrow> heuristic_path_runs domParser content
       \<and> (\<exists>line \<in> set (text_lines content). looksLikePosition_run eng line = Throws)"
  by (simp add: parse_run_def heuristic_path_runs_def parseXMLGAEB_run_throws parseTextGAEB_run_throws)

lemma parse_run_returns:
  assumes "\<forall>line \<in> set (text_lines content). looksLikePosition_run eng line \<noteq> Throws"
  shows "\<exists>d. parse_run eng domParser now content fileName' = Returns d"
proof (cases "parse_run eng domParser now content fileName'")
  case Throws
  with assms parse_run_throws [of eng domParser now content fileName'] show ?thesis by simp
next
  case (Returns d)
  then show ?thesis by simp
qed

lemma mauerwerk_gives_up: "looksLikePosition_run small_engine mauerwerk_line = Throws"
  by (simp add: looksLikePosition_run_def looks_tests_def small_engine_def mauerwerk_units ev_str Let_def)

text \<open>With every body failing, the parse still returns a document, without positions.\<close>

lemma run_steps_no_positions:
  assumes "\<forall>ci r s. \<not> gives_up eng ci r s" and "\<forall>line index allLines i. body_throws eng line index allLines i"
  shows "ts_positions st = [] \<Longrightarrow>
         \<exists>final. run_steps (text_step_run eng lines) is st = Returns final \<and> ts_positions final = []"
proof (induction "is" arbitrary: st)
  case Nil
  then show ?case by simp
next
  case (Cons i "is")
  from assms(1) have l: "\<And>line. looksLikePosition_run eng line = Returns (looksLikePosition line)"
    by (simp add: looksLikePosition_run_quiet)
  from assms(2) have p: "\<And>line index allLines i. parsePosition_run eng line index allLines i = None"
    by (simp add: parsePosition_run_def)
  have "\<exists>st'. text_step_run eng lines i st = Returns st' \<and> ts_positions st' = []"
    using Cons.prems
    by (cases "currentSection st"; cases "looksLikePosition (lines ! i)")
       (simp_all add: text_step_run_def Let_def l p)
  then obtain st' where s: "text_step_run eng lines i st = Returns st'" and e: "ts_positions st' = []"
    by blast
  from Cons.IH [OF e] s show ?case by simp
qed

lemma failing_bodies_give_empty_document:
  assumes "\<forall>ci r s. \<not> gives_up eng ci r s" and "\<forall>line index allLines i. body_throws eng line index allLines i"
  shows "\<exists>d. parseTextGAEB_run eng now content fileName' = Returns d \<and> positions d = [] \<and> totalPositions d = 0"
proof -
  let ?start = "\<lparr>ts_header = empty_header\<lparr>header_format := Some (detectGAEBFormat content)\<rparr>,
                   currentSection = InHeader, positionCounter = 0, ts_positions = []\<rparr>"
  have "ts_positions ?start = []" by simp
  from run_steps_no_positions [OF assms this, of "text_lines content" "[0..<length (text_lines content)]"]
  show ?thesis
    by (auto simp: parseTextGAEB_run_def Let_def)
qed

text \<open>The fallback, the count and the ids, for the documents of every engine.\<close>

lemma parse_run_fallback:
  "structured_path_fails domParser content \<Longrightarrow>
   parse_run eng domParser now content fileName' = parseTextGAEB_run eng now content fileName'"
proof -
  assume "structured_path_fails domParser content"
  then have "xml_try domParser content (empty_header\<lparr>header_format := Some (detectXMLGAEBFormat content)\<rparr>) = Throws
     \<or> xml_try domParser content (empty_header\<lparr>header_format := Some (detectXMLGAEBFormat content)\<rparr>) = Returns (Inl ())"
    by (rule xml_try_fails [THEN iffD1])
  then have "parseXMLGAEB_run eng domParser now content fileName' = parseTextGAEB_run eng now content fileName'"
    by (auto simp: parseXMLGAEB_run_def split: outcome.splits)
  then show ?thesis by (simp add: parse_run_def)
qed

lemma parse_run_total:
  "parse_run eng domParser now content fileName' = Returns d \<Longrightarrow> totalPositions d = length (positions d)"
  by (auto simp: parse_run_def parseXMLGAEB_run_def parseTextGAEB_run_def Let_def
      split: if_splits outcome.splits sum.splits prod.splits)

lemma text_step_run_cases:
  assumes "text_step_run eng lines i st = Returns st'"
  shows "(ts_positions st' = ts_positions st \<and> positionCounter st \<le> positionCounter st')
   \<or> (\<exists>p. parsePosition (lines ! i) (positionCounter st) lines i = Some p \<and>
        ts_positions st' = ts_positions st @ [p] \<and>
        positionCounter st' = positionCounter st + 1)"
proof (cases "lines ! i = []")
  case True
  with assms show ?thesis by (simp add: text_step_run_def)
next
  case False
  show ?thesis
  proof (cases "looksLikePosition_run eng (lines ! i)")
    case Throws
    with assms False show ?thesis
      by (cases "currentSection st") (simp_all add: text_step_run_def Let_def)
  next
    case (Returns looks)
    show ?thesis
    proof (cases "parsePosition_run eng (lines ! i) (positionCounter st) lines i")
      case None
      with assms False Returns show ?thesis
        by (cases "currentSection st"; cases looks) (auto simp: text_step_run_def Let_def)
    next
      case (Some p)
      then have "parsePosition (lines ! i) (positionCounter st) lines i = Some p"
        by (simp add: parsePosition_run_def split: if_splits)
      with assms False Returns Some show ?thesis
        by (cases "currentSection st"; cases looks) (auto simp: text_step_run_def Let_def)
    qed
  qed
qed

lemma text_step_run_numbered:
  assumes "numbered_by cs st" and "text_step_run eng lines i st = Returns st'"
  shows "\<exists>cs'. numbered_by cs' st'"
  using text_step_run_cases [OF assms(2)]
proof
  assume "ts_positions st' = ts_positions st \<and> positionCounter st \<le> positionCounter st'"
  with assms(1) have "numbered_by cs st'"
    by (auto simp: numbered_by_def)
  then show ?thesis ..
next
  assume "\<exists>p. parsePosition (lines ! i) (positionCounter st) lines i = Some p \<and>
        ts_positions st' = ts_positions st @ [p] \<and> positionCounter st' = positionCounter st + 1"
  then obtain p where p: "parsePosition (lines ! i) (positionCounter st) lines i = Some p"
    and ps: "ts_positions st' = ts_positions st @ [p]"
    and pc: "positionCounter st' = positionCounter st + 1"
    by blast
  from assms(1) have len: "length cs = length (ts_positions st)"
    and srt: "sorted_wrt (<) cs" and below: "\<forall>c \<in> set cs. c < positionCounter st"
    and ids: "\<forall>k < length (ts_positions st).
        node_id (ts_positions st ! k) =
          str_or (positionNumber (ts_positions st ! k)) (asc ''pos_'' @ nat_to_string (cs ! k + 1))"
    and shp: "\<forall>q \<in> set (ts_positions st). \<forall>pn. positionNumber q = Some pn \<longrightarrow>
        pn \<noteq> [] \<and> (is_digit (hd pn) \<or> is_upper (hd pn))"
    by (simp_all add: numbered_by_def)
  let ?cs = "cs @ [positionCounter st]"
  have 1: "length ?cs = length (ts_positions st')" using len ps by simp
  have 2: "sorted_wrt (<) ?cs" using srt below by (simp add: sorted_wrt_append)
  have 3: "\<forall>c \<in> set ?cs. c < positionCounter st'" using below pc by auto
  have 4: "\<forall>k < length (ts_positions st').
        node_id (ts_positions st' ! k) =
          str_or (positionNumber (ts_positions st' ! k)) (asc ''pos_'' @ nat_to_string (?cs ! k + 1))"
    using ids len ps parsePosition_id [OF p] by (auto simp: nth_append less_Suc_eq)
  have 5: "\<forall>q \<in> set (ts_positions st'). \<forall>pn. positionNumber q = Some pn \<longrightarrow>
        pn \<noteq> [] \<and> (is_digit (hd pn) \<or> is_upper (hd pn))"
    using shp ps parsePosition_number_shape [OF p] by auto
  from 1 2 3 4 5 have "numbered_by ?cs st'" unfolding numbered_by_def by blast
  then show ?thesis ..
qed

lemma run_steps_numbered:
  "numbered_by cs st \<Longrightarrow> run_steps (text_step_run eng lines) is st = Returns final \<Longrightarrow>
   \<exists>cs'. numbered_by cs' final"
proof (induction "is" arbitrary: cs st)
  case Nil
  then show ?case by auto
next
  case (Cons i "is")
  from Cons.prems(2) obtain st' where s: "text_step_run eng lines i st = Returns st'"
    and r: "run_steps (text_step_run eng lines) is st' = Returns final"
    by (auto split: outcome.splits)
  from text_step_run_numbered [OF Cons.prems(1) s] obtain cs' where "numbered_by cs' st'" ..
  from Cons.IH [OF this r] show ?case .
qed

lemma ids_on_any_engine:
  assumes d: "parseTextGAEB_run eng now content fileName' = Returns d"
    and "i < j" and "j < length (positions d)"
  shows "node_id (positions d ! i) = node_id (positions d ! j)
         \<longleftrightarrow> positionNumber (positions d ! i) \<noteq> None
             \<and> positionNumber (positions d ! i) = positionNumber (positions d ! j)"
proof -
  let ?start = "\<lparr>ts_header = empty_header\<lparr>header_format := Some (detectGAEBFormat content)\<rparr>,
                   currentSection = InHeader, positionCounter = 0, ts_positions = []\<rparr>"
  let ?lines = "text_lines content"
  from d obtain final where f: "run_steps (text_step_run eng ?lines) [0..<length ?lines] ?start = Returns final"
    and ps: "positions d = ts_positions final"
    by (auto simp: parseTextGAEB_run_def Let_def split: outcome.splits)
  have "numbered_by [] ?start" by (simp add: numbered_by_def)
  from run_steps_numbered [OF this f] obtain cs where n: "numbered_by cs final" ..
  let ?ps = "positions d"
  from assms(2,3) have il: "i < length ?ps" by simp
  from n ps have len: "length cs = length ?ps" and srt: "sorted_wrt (<) cs"
    and ids: "\<And>k. k < length ?ps \<Longrightarrow>
        node_id (?ps ! k) = str_or (positionNumber (?ps ! k)) (asc ''pos_'' @ nat_to_string (cs ! k + 1))"
    by (simp_all add: numbered_by_def)
  have shp: "pn \<noteq> [] \<and> (is_digit (hd pn) \<or> is_upper (hd pn))"
    if "k < length ?ps" and "positionNumber (?ps ! k) = Some pn" for k pn
  proof -
    from that(1) have "?ps ! k \<in> set (ts_positions final)" by (simp add: ps)
    with n that(2) show ?thesis unfolding numbered_by_def by blast
  qed
  from srt assms(2,3) len have "cs ! i < cs ! j" by (simp add: sorted_wrt_nth_less)
  then have diff: "nat_to_string (cs ! i + 1) \<noteq> nat_to_string (cs ! j + 1)"
    using nat_to_string_inject by fastforce
  have synth: "\<And>c pn. pn \<noteq> [] \<and> (is_digit (hd pn) \<or> is_upper (hd pn)) \<Longrightarrow>
                 asc ''pos_'' @ nat_to_string (c + 1) \<noteq> pn"
  proof
    fix c pn
    assume h: "pn \<noteq> [] \<and> (is_digit (hd pn) \<or> is_upper (hd pn))"
      and "asc ''pos_'' @ nat_to_string (c + 1) = pn"
    then have "hd pn = 112" by (auto simp: asc_def)
    with h show False by (simp add: is_digit_def is_upper_def)
  qed
  show ?thesis
  proof (cases "positionNumber (?ps ! i)")
    case None
    note ni = None
    show ?thesis
    proof (cases "positionNumber (?ps ! j)")
      case None
      with ni diff ids [OF il] ids [OF assms(3)] show ?thesis by (simp add: str_or_def)
    next
      case (Some pn)
      from synth [OF shp [OF assms(3) Some], of "cs ! i"] shp [OF assms(3) Some]
        ni Some ids [OF il] ids [OF assms(3)]
      show ?thesis by (simp add: str_or_def)
    qed
  next
    case (Some pn)
    note si = Some
    show ?thesis
    proof (cases "positionNumber (?ps ! j)")
      case None
      from synth [OF shp [OF il si], of "cs ! j"] shp [OF il si]
        si None ids [OF il] ids [OF assms(3)]
      show ?thesis by (auto simp: str_or_def)
    next
      case (Some qn)
      with si shp [OF il si] shp [OF assms(3) Some] ids [OF il] ids [OF assms(3)]
      show ?thesis by (simp add: str_or_def)
    qed
  qed
qed


section \<open>Supporting facts about the pricing cases and the sheet names\<close>

text \<open>
  The cases of the quantity and price derivation. The tests on the currency
  amount are tests of truthiness: an amount of zero counts as no amount.
\<close>

lemma derive_pricing_one_priced:
  "num_truthy c \<Longrightarrow> derive_pricing TypePosition [q] c = (Some q, c, Some (js_mul q (the c)))"
  by (simp add: derive_pricing_def)

lemma derive_pricing_many_priced:
  "num_truthy c \<Longrightarrow> derive_pricing TypePosition (q # t # ns) c = (Some q, c, Some t)"
  by (simp add: derive_pricing_def)

lemma derive_pricing_many_unpriced:
  "\<not> num_truthy c \<Longrightarrow>
   derive_pricing TypePosition (q # t # ns) c =
     (if js_less (Fin 1) (Math_max (t # ns))
      then (Some q, Some (js_div (Math_max (t # ns)) q), Some (Math_max (t # ns)))
      else (Some q, None, None))"
  by (simp add: derive_pricing_def Let_def)

lemma derive_pricing_one_unpriced:
  "\<not> num_truthy c \<Longrightarrow> derive_pricing TypePosition [q] c = (Some q, None, None)"
  by (simp add: derive_pricing_def)

lemma derive_pricing_no_number: "derive_pricing ty [] c = (None, None, None)"
  by (simp add: derive_pricing_def)

lemma derive_pricing_other_type:
  "ty \<noteq> TypePosition \<Longrightarrow> derive_pricing ty ns c = (None, None, None)"
  by (simp add: derive_pricing_def)

lemma zero_amount_is_falsy: "\<not> num_truthy (Some (Fin 0))"
  by (simp add: num_truthy_def)

text \<open>Sheet names hold no unsafe character, and differ when there are several.\<close>

lemma cleanFileName_length: "length (cleanFileName name) \<le> 31"
  by (simp add: cleanFileName_def)

lemma cleanFileName_safe: "c \<in> set (cleanFileName name) \<Longrightarrow> \<not> unsafe_char c"
proof -
  assume "c \<in> set (cleanFileName name)"
  then have "c \<in> set (map (\<lambda>c. if unsafe_char c then 95 else c) name)"
    unfolding cleanFileName_def by (rule in_set_takeD)
  then show ?thesis by (auto simp: unsafe_char_def)
qed

lemma sheetName_safe: "c \<in> set (sheetName n index name) \<Longrightarrow> \<not> unsafe_char c"
proof (cases "1 < n")
  case False
  assume "c \<in> set (sheetName n index name)"
  with False show ?thesis by (simp add: sheetName_def cleanFileName_safe)
next
  case True
  assume "c \<in> set (sheetName n index name)"
  with True consider "c \<in> set (asc ''File_'')" | "c \<in> set (nat_to_string (index + 1))"
    | "c = 95" | "c \<in> set (cleanFileName name)"
    by (auto simp: sheetName_def asc_def)
  then show ?thesis
  proof cases
    case 1
    then show ?thesis by (auto simp: asc_def unsafe_char_def)
  next
    case 2
    from nat_to_string_digits [OF this] show ?thesis
      by (auto simp: is_digit_def unsafe_char_def)
  next
    case 3
    then show ?thesis by (simp add: unsafe_char_def)
  next
    case 4
    then show ?thesis by (rule cleanFileName_safe)
  qed
qed

lemma takeWhile_numeral:
  "takeWhile is_digit (nat_to_string n @ 95 # rest) = nat_to_string n"
proof -
  have "\<forall>c \<in> set (nat_to_string n). is_digit c"
    using nat_to_string_digits by blast
  then have "takeWhile is_digit (nat_to_string n @ 95 # rest)
             = nat_to_string n @ takeWhile is_digit (95 # rest)"
    by (simp add: takeWhile_append2)
  then show ?thesis by (simp add: is_digit_def)
qed

lemma sheetName_inject:
  assumes "1 < n" and "sheetName n i a = sheetName n j b"
  shows "i = j"
proof -
  from assms have "nat_to_string (i + 1) @ 95 # cleanFileName a = nat_to_string (j + 1) @ 95 # cleanFileName b"
    by (simp add: sheetName_def asc_def)
  then have "takeWhile is_digit (nat_to_string (i + 1) @ 95 # cleanFileName a)
             = takeWhile is_digit (nat_to_string (j + 1) @ 95 # cleanFileName b)"
    by simp
  then have "nat_to_string (i + 1) = nat_to_string (j + 1)"
    by (simp only: takeWhile_numeral)
  from nat_to_string_inject [OF this] show ?thesis by simp
qed

lemma sheetNames_nth:
  "i < length gaebFiles \<Longrightarrow>
   sheetNames gaebFiles ! i = sheetName (length gaebFiles) i (fileName (gaebFiles ! i))"
  by (simp add: sheetNames_def nth_enumerate_eq)

lemma sheetNames_distinct: "1 < length gaebFiles \<Longrightarrow> distinct (sheetNames gaebFiles)"
proof -
  assume many: "1 < length gaebFiles"
  have len: "length (sheetNames gaebFiles) = length gaebFiles"
    by (simp add: sheetNames_def)
  show ?thesis
    unfolding distinct_conv_nth len
  proof (intro allI impI)
    fix i j
    assume "i < length gaebFiles" "j < length gaebFiles" "i \<noteq> j"
    then show "sheetNames gaebFiles ! i \<noteq> sheetNames gaebFiles ! j"
      using sheetName_inject [OF many] by (auto simp: sheetNames_nth)
  qed
qed

lemma sheetNames_single_length: "length (sheetNames [gaebFile]) = 1 \<and> length (hd (sheetNames [gaebFile])) \<le> 31"
  by (simp add: sheetNames_def sheetName_def enumerate_eq_zip cleanFileName_length)

section \<open>The claims\<close>

text \<open>
  C1, as the code has it. For the single input line
  \<^verbatim>\<open>1.2 Mauerwerk 20m\<^sup>2 15,50EURO\<close> the heuristic line parser emits one node, of
  type position, with the position number 1.2 and the unit price 15.50. Its
  quantity is 1.2 and its total price is 15.50: the numbers of the line are its
  decimal tokens, 1.2 and 15,50 (the integer 20 is left out once a decimal token
  exists), the first is the quantity, and the second is taken as the total price
  next to a currency amount. Nothing is said about the unit.
\<close>

theorem mauerwerk_line_parsed:
  "map (\<lambda>p. (node_type p, positionNumber p, unitPrice p, quantity p, totalPrice p))
     (positions (parseTextGAEB now mauerwerk_line fileName'))
   = [(TypePosition, Some (asc ''1.2''), Some (Fin (31 / 2)), Some (Fin (6 / 5)), Some (Fin (31 / 2)))]"
  by (simp add: mauerwerk_doc)

text \<open>
  C1 as stated fails on this line: the node has no unit, its quantity is not 20
  and its total price is not 20 times 15.50.
\<close>

theorem mauerwerk_line_counterexample:
  "length (positions (parseTextGAEB [] mauerwerk_line [])) = 1
   \<and> unit (hd (positions (parseTextGAEB [] mauerwerk_line []))) = None
   \<and> quantity (hd (positions (parseTextGAEB [] mauerwerk_line []))) = Some (Fin (6 / 5))
   \<and> quantity (hd (positions (parseTextGAEB [] mauerwerk_line []))) \<noteq> Some (Fin 20)
   \<and> totalPrice (hd (positions (parseTextGAEB [] mauerwerk_line []))) = Some (Fin (31 / 2))
   \<and> totalPrice (hd (positions (parseTextGAEB [] mauerwerk_line []))) \<noteq> Some (js_mul (Fin 20) (Fin (31 / 2)))"
  by (simp add: mauerwerk_doc)

text \<open>
  C2, at an input where the code departs from it. The line
  \<^verbatim>\<open>Beton 2,5 m 0,00 EUR\<close> is a position with the two plain numbers 2.5 and 0 and
  the currency amount 0. By case (b) of the claim its unit price is the currency
  amount and its total price the second number; the code tests the amount for
  truthiness, takes zero for no amount, and sets the quantity only.
\<close>

theorem zero_price_line_parsed:
  "map (\<lambda>p. (node_type p, quantity p, unitPrice p, totalPrice p))
     (positions (parseTextGAEB now zero_price_line fileName'))
   = [(TypePosition, Some (Fin (5 / 2)), None, None)]"
  by (rule zero_price_doc)

text \<open>What the guard of the heuristic path keeps out: the three spellings it names.\<close>

lemma heuristic_unit_guard:
  assumes "p \<in> set (positions (parseTextGAEB now content fileName'))"
  shows "unit p \<noteq> Some [EURO] \<and> unit p \<noteq> Some (asc ''EUR'') \<and> unit p \<noteq> Some (asc ''DM'')"
proof -
  let ?Q = "\<lambda>p. \<forall>u. unit p = Some u \<longrightarrow> \<not> is_currency_token u"
  from assms have "?Q p"
    by (rule parseTextGAEB_all [where Q = ?Q, rotated]) (use parsePosition_unit in blast)
  then show ?thesis by (auto simp: is_currency_token_def)
qed

text \<open>
  C3, at inputs where the code departs from it. On the structured-markup path
  the unit of an item is the trimmed text of its \<^verbatim>\<open>QU\<close> element, with no
  filter: the item whose \<^verbatim>\<open>QU\<close> reads \<^verbatim>\<open>EUR\<close> is a position node with the unit
  \<^verbatim>\<open>EUR\<close>. On the heuristic path the unit pattern matches without regard to
  case, and the guard compares with three spellings exactly: the line
  \<^verbatim>\<open>Beton 5,00 eur\<close> is a position node with the unit \<^verbatim>\<open>eur\<close>.
\<close>

theorem currency_units_stored:
  "map (\<lambda>p. (node_type p, unit p))
     (doc_positions (parse (fixed_dom currency_unit_doc) now (asc ''<GAEB>'') fileName'))
   = [(TypeTitle, None), (TypePosition, Some (asc ''EUR''))]
   \<and> map (\<lambda>p. (node_type p, unit p))
       (positions (parseTextGAEB now lowercase_currency_line fileName'))
     = [(TypePosition, Some (asc ''eur''))]"
  by (simp add: currency_unit_positions lowercase_currency_doc)

text \<open>
  C4, at an input where the code departs from it. A category whose
  \<^verbatim>\<open>RNoPart\<close> is \<^verbatim>\<open>A\<close> is the first category, so by the claim its ordinal is 1
  and its item is numbered 1.1. The code prints the failed integer parse as the
  number of the category and numbers the item by the item's own
  \<^verbatim>\<open>RNoPart\<close>, here the item's index.
\<close>

theorem lettered_category_numbers:
  "map positionNumber
     (doc_positions (parse (fixed_dom lettered_category_doc) now (asc ''<GAEB>'') fileName'))
   = [Some (asc ''NaN''), Some (asc ''1'')]"
  by (rule lettered_category_positions)

text \<open>
  C5, as the code has it. The extraction of an item returns a node. When the
  item has a quantity sub-element, the quantity of the node is defined: it is 0
  when the text of the sub-element is empty, and otherwise what \<^verbatim>\<open>parseFloat\<close>
  reads from the text, which is NaN when the text is no number. The quantity is
  undefined when the item has no quantity sub-element.
\<close>

theorem item_quantity_parseFloat:
  "\<exists>p. parseXMLItem itemElement index parentCategoryId categoryNumber itemNumber = Some p \<and>
       quantity p =
         (case querySelector itemElement [asc ''Qty''] of
            None \<Rightarrow> None
          | Some qtyElement \<Rightarrow>
              Some (if textContent qtyElement = [] then Fin 0
                    else parseFloat (textContent qtyElement)))"
  by (simp add: parseXMLItem_def Let_def str_or_def parseFloat_zero split: option.splits)

text \<open>The item whose quantity reads \<^verbatim>\<open>abc\<close>.\<close>

theorem item_quantity_parseFloat_witness:
  "\<exists>p. parseXMLItem word_quantity_item 0 None (Some 1) 1 = Some p \<and> quantity p = Some NaN"
proof -
  have "textContent ([asc ''Item'', asc ''BoQCtgy'', asc ''BoQ'', asc ''GAEB''],
             Elem (asc ''Qty'') [] [TextNode (asc ''abc'')]) = asc ''abc''"
    by (simp add: textContent_def)
  moreover have "asc ''abc'' \<noteq> []" by (simp add: asc_def)
  ultimately show ?thesis
    using item_quantity_parseFloat [of word_quantity_item 0 None "Some 1" 1]
    by (simp add: word_quantity_element parseFloat_abc)
qed

text \<open>
  C5 as stated fails: the quantity of an item whose text is \<^verbatim>\<open>abc\<close> is NaN,
  not undefined, and the quantity of an item whose text is empty is zero.
\<close>

theorem bad_quantity_counterexample:
  "length (doc_positions (parse (fixed_dom bad_quantity_doc) [] (asc ''<GAEB>'') [])) = 3
   \<and> quantity (doc_positions (parse (fixed_dom bad_quantity_doc) [] (asc ''<GAEB>'') []) ! 1) = Some NaN
   \<and> quantity (doc_positions (parse (fixed_dom bad_quantity_doc) [] (asc ''<GAEB>'') []) ! 2) = Some (Fin 0)"
proof -
  let ?ps = "doc_positions (parse (fixed_dom bad_quantity_doc) [] (asc ''<GAEB>'') [])"
  have m: "map (\<lambda>p. (node_type p, quantity p)) ?ps
           = [(TypeTitle, None), (TypePosition, Some NaN), (TypePosition, Some (Fin 0))]"
    by (rule bad_quantity_positions)
  then have "length (map (\<lambda>p. (node_type p, quantity p)) ?ps) = 3" by simp
  then have len: "length ?ps = 3" by simp
  from len have "map (\<lambda>p. (node_type p, quantity p)) ?ps ! 1 = (node_type (?ps ! 1), quantity (?ps ! 1))"
    by (intro nth_map) simp
  with m have a: "quantity (?ps ! 1) = Some NaN" by simp
  from len have "map (\<lambda>p. (node_type p, quantity p)) ?ps ! 2 = (node_type (?ps ! 2), quantity (?ps ! 2))"
    by (intro nth_map) simp
  with m have b: "quantity (?ps ! 2) = Some (Fin 0)" by simp
  from len a b show ?thesis by simp
qed

text \<open>
  C6. For every raw text on which the structured-markup path fails (building
  the tree throws, or the tree holds an error node), the top-level parse returns
  what the heuristic line parser returns for the same text and file name.
\<close>

theorem fallback_equivalence:
  "structured_path_fails domParser content \<Longrightarrow>
   parse domParser now content fileName' = Returns (parseTextGAEB now content fileName')"
  by (simp add: parse_def parseXMLGAEB_fallback)

theorem fallback_equivalence_witness:
  "structured_path_fails (fixed_dom error_doc) (asc ''<GAEB><BoQ></GAEB>'')
   \<and> parse (fixed_dom error_doc) [] (asc ''<GAEB><BoQ></GAEB>'') (asc ''lv.x83'')
     = Returns (parseTextGAEB [] (asc ''<GAEB><BoQ></GAEB>'') (asc ''lv.x83''))"
proof -
  have f: "structured_path_fails (fixed_dom error_doc) (asc ''<GAEB><BoQ></GAEB>'')"
    by (simp add: structured_path_fails_def fixed_dom_def error_doc_def doc_querySelector_def selects_def asc_def)
  from f fallback_equivalence [OF f] show ?thesis by simp
qed

text \<open>
  C7. In every document that the top-level parse returns, by either path, the
  count \<^verbatim>\<open>totalPositions\<close> is the length of the sequence of positions.
\<close>

theorem totalPositions_is_length:
  "parse domParser now content fileName' = Returns d \<Longrightarrow> totalPositions d = length (positions d)"
  by (auto simp: parse_def parseTextGAEB_total parseXMLGAEB_total split: if_splits)

theorem totalPositions_is_length_witness:
  "\<exists>d. parse (fixed_dom currency_unit_doc) [] (asc ''<GAEB>'') [] = Returns d
       \<and> length (positions d) = 2 \<and> totalPositions d = length (positions d)"
proof -
  have x: "startsWith (trim (asc ''<GAEB>'')) (asc ''<?xml'') \<or> js_includes (asc ''<GAEB>'') (asc ''<GAEB'')"
    by (simp add: asc_def)
  obtain d where "parseXMLGAEB (fixed_dom currency_unit_doc) [] (asc ''<GAEB>'') [] = Returns d"
    using parseXMLGAEB_returns by blast
  with x have d: "parse (fixed_dom currency_unit_doc) [] (asc ''<GAEB>'') [] = Returns d"
    by (simp only: parse_def if_True)
  have "map (\<lambda>p. (node_type p, unit p)) (positions d) = [(TypeTitle, None), (TypePosition, Some (asc ''EUR''))]"
    using currency_unit_positions [of "[]" "[]"] by (simp only: d doc_positions_def outcome.case)
  then have "length (map (\<lambda>p. (node_type p, unit p)) (positions d)) = 2" by simp
  then have "length (positions d) = 2" by simp
  with d totalPositions_is_length [OF d] show ?thesis by simp
qed

text \<open>
  C8, as the code has it. In every document of the heuristic line parser, two
  nodes have the same id exactly when a position number was found for both and
  it is the same one. So the synthesized ids differ from each other and from
  every id taken from the source, and the ids taken from the source are unique
  as far as the position numbers of the source are.
\<close>

theorem ids_equal_iff_same_number:
  assumes "i < j" and "j < length (positions (parseTextGAEB now content fileName'))"
  shows "node_id (positions (parseTextGAEB now content fileName') ! i)
           = node_id (positions (parseTextGAEB now content fileName') ! j)
         \<longleftrightarrow> positionNumber (positions (parseTextGAEB now content fileName') ! i) \<noteq> None
             \<and> positionNumber (positions (parseTextGAEB now content fileName') ! i)
               = positionNumber (positions (parseTextGAEB now content fileName') ! j)"
proof -
  let ?ps = "positions (parseTextGAEB now content fileName')"
  from assms have il: "i < length ?ps" by simp
  have synth: "\<And>k pn. is_digit (hd pn) \<or> is_upper (hd pn) \<Longrightarrow> pn \<noteq> [] \<Longrightarrow>
                 asc ''pos_'' @ nat_to_string (k + 1) \<noteq> pn"
  proof
    fix k pn
    assume h: "is_digit (hd pn) \<or> is_upper (hd pn)" and "pn \<noteq> []"
      and "asc ''pos_'' @ nat_to_string (k + 1) = pn"
    then have "hd pn = 112" by (auto simp: asc_def)
    with h show False by (simp add: is_digit_def is_upper_def)
  qed
  show ?thesis
  proof (cases "positionNumber (?ps ! i)")
    case None
    note ni = None
    show ?thesis
    proof (cases "positionNumber (?ps ! j)")
      case None
      from assms(1) have "nat_to_string (i + 1) \<noteq> nat_to_string (j + 1)"
        using nat_to_string_inject by fastforce
      with ni None parseTextGAEB_id_cases [OF il] parseTextGAEB_id_cases [OF assms(2)]
      show ?thesis by simp
    next
      case (Some pn)
      from parseTextGAEB_number_shape [OF assms(2) Some] synth [of pn i]
      have "asc ''pos_'' @ nat_to_string (i + 1) \<noteq> pn" by simp
      with ni Some parseTextGAEB_id_cases [OF il] parseTextGAEB_id_cases [OF assms(2)]
      show ?thesis by simp
    qed
  next
    case (Some pn)
    note si = Some
    show ?thesis
    proof (cases "positionNumber (?ps ! j)")
      case None
      from parseTextGAEB_number_shape [OF il si] synth [of pn j]
      have "asc ''pos_'' @ nat_to_string (j + 1) \<noteq> pn" by simp
      with si None parseTextGAEB_id_cases [OF il] parseTextGAEB_id_cases [OF assms(2)]
      show ?thesis by auto
    next
      case (Some qn)
      with si parseTextGAEB_id_cases [OF il] parseTextGAEB_id_cases [OF assms(2)]
      show ?thesis by simp
    qed
  qed
qed

theorem ids_equal_iff_same_number_witness:
  "(0::nat) < 1 \<and> 1 < length (positions (parseTextGAEB [] unnumbered_text []))
   \<and> positionNumber (positions (parseTextGAEB [] unnumbered_text []) ! 0) = None
   \<and> node_id (positions (parseTextGAEB [] unnumbered_text []) ! 0)
      \<noteq> node_id (positions (parseTextGAEB [] unnumbered_text []) ! 1)"
proof -
  let ?ps = "positions (parseTextGAEB [] unnumbered_text [])"
  have m: "map (\<lambda>p. (node_id p, positionNumber p, unit p)) ?ps
           = [(asc ''pos_1'', None, None), (asc ''pos_2'', None, None)]"
    by (rule unnumbered_doc)
  then have "length (map (\<lambda>p. (node_id p, positionNumber p, unit p)) ?ps) = 2" by simp
  then have len: "length ?ps = 2" by simp
  from len have "map (\<lambda>p. (node_id p, positionNumber p, unit p)) ?ps ! 0
                 = (node_id (?ps ! 0), positionNumber (?ps ! 0), unit (?ps ! 0))"
    by (intro nth_map) simp
  with m have a: "positionNumber (?ps ! 0) = None" by simp
  have l: "(0::nat) < 1" by simp
  from len have k: "1 < length ?ps" by simp
  from l k a ids_equal_iff_same_number [OF l k] show ?thesis by simp
qed

text \<open>
  C8 as stated fails on both paths: two lines with the position number 1.2 give
  two nodes with the id \<^verbatim>\<open>1.2\<close>, and the first items of two categories both
  get the id \<^verbatim>\<open>item_1\<close>.
\<close>

theorem repeated_id_counterexample:
  "map node_id (positions (parseTextGAEB [] repeated_number_text [])) = [asc ''1.2'', asc ''1.2'']
   \<and> map node_id (doc_positions (parse (fixed_dom two_categories_doc) [] (asc ''<GAEB>'') []))
     = [asc ''c1'', asc ''item_1'', asc ''c2'', asc ''item_1'']"
  by (simp add: repeated_number_doc two_categories_positions)

text \<open>
  C9, at the inputs where the code departs from it. The parse throws exactly
  when the heuristic line parser runs and the engine gives up in
  \<^verbatim>\<open>looksLikePosition\<close> on one of the lines: the two calls of the loop stand
  outside any \<^verbatim>\<open>try\<close>. What the DOM parser throws, and what the body of
  \<^verbatim>\<open>parsePosition\<close> throws, is caught.
\<close>

theorem parse_throws_iff:
  "parse_run eng domParser now content fileName' = Throws
   \<longleftrightarrow> heuristic_path_runs domParser content
       \<and> (\<exists>line \<in> set (text_lines content). looksLikePosition_run eng line = Throws)"
  by (rule parse_run_throws)

text \<open>A line of 25 units on the engine with a stack for sixteen.\<close>

theorem parse_throws_witness:
  "parse_run small_engine (fixed_dom error_doc) [] mauerwerk_line (asc ''lv.d83'') = Throws"
proof -
  have h: "heuristic_path_runs (fixed_dom error_doc) mauerwerk_line"
    by (simp add: heuristic_path_runs_def mauerwerk_units ev_str)
  have l: "mauerwerk_line \<in> set (text_lines mauerwerk_line)"
    by (simp add: text_lines_def mauerwerk_lines)
  from h l mauerwerk_gives_up
    parse_throws_iff [of small_engine "fixed_dom error_doc" "[]" mauerwerk_line "asc ''lv.d83''"]
  show ?thesis by blast
qed

text \<open>
  C10, at an input where the code departs from it. Two documents with a file
  name of 31 characters are exported together: the ordinal prefix is put in
  front of the name after the name was cut to 31 characters, and each sheet name
  has 38 characters.
\<close>

theorem long_name_sheet_lengths:
  "map length (sheetNames [long_name_file, long_name_file]) = [38, 38]"
  by (simp add: long_name_sheets asc_def)

end
